theory Spec2Isabelle
  imports Complex_Main "HOL-Library.Log_Nat"
begin

section \<open>Python values shared by all modules\<close>

subsection \<open>Exceptions as values\<close>

text \<open>
  The exceptions a well-typed run of the modelled code can raise: an index outside a
  list, a float division by zero, an int too large to convert to a float, a subscript
  on \<^verbatim>\<open>None\<close>, and the failure of a network client (aiohttp, the Solana RPC client).
\<close>

datatype py_error = IndexError | ZeroDivisionError | OverflowError | TypeError | ClientError

text \<open>\<^verbatim>\<open>d.get(key, default)\<close> on an entry that may be absent.\<close>

definition dict_get :: "'a option \<Rightarrow> 'a \<Rightarrow> 'a" where
  "dict_get entry dflt = (case entry of None \<Rightarrow> dflt | Some v \<Rightarrow> v)"

subsection \<open>Floats: IEEE 754 binary64 with round-to-nearest-even\<close>

text \<open>
  A finite Python float is modelled by its exact value, a rational number. Every float
  operation of the source is the exact operation followed by \<open>rnd\<close>, the rounding of
  binary64: 53 significant bits, ties to even, gradual underflow below \<open>2^-1022\<close>.
  The exponent is not bounded from above, so a result of magnitude \<open>2^1024\<close> or more
  (which binary64 turns into an infinity) stays finite here; no quantity of the modelled
  code that decides a branch comes near that size except the conversion of an int to a
  float, which raises \<^verbatim>\<open>OverflowError\<close> and is modelled as such. NaN does not occur.
\<close>

text \<open>Rounding a rational to the nearest integer, a tie to the even neighbour.\<close>

definition rne :: "rat \<Rightarrow> int" where
  "rne y = (let f = \<lfloor>y\<rfloor>; d = y - of_int f in
             if d < 1/2 then f else if 1/2 < d then f + 1 else if even f then f else f + 1)"

text \<open>The binary exponent \<open>\<lfloor>log\<^sub>2 x\<rfloor>\<close> of a positive rational.\<close>

definition ilog2 :: "rat \<Rightarrow> int" where
  "ilog2 x = (if 1 \<le> x then bitlen \<lfloor>x\<rfloor> - 1 else - bitlen (\<lceil>1 / x\<rceil> - 1))"

definition rnd :: "rat \<Rightarrow> rat" where
  "rnd x = (if x = 0 then 0 else
     let e = max (ilog2 \<bar>x\<bar> - 52) (- 1074)
     in sgn x * of_int (rne (\<bar>x\<bar> / 2 powi e)) * 2 powi e)"

definition fadd :: "rat \<Rightarrow> rat \<Rightarrow> rat" where
  "fadd x y = rnd (x + y)"

definition fsub :: "rat \<Rightarrow> rat \<Rightarrow> rat" where
  "fsub x y = rnd (x - y)"

definition fmul :: "rat \<Rightarrow> rat \<Rightarrow> rat" where
  "fmul x y = rnd (x * y)"

text \<open>\<^verbatim>\<open>x / y\<close> on floats raises on a zero divisor.\<close>

definition truediv :: "rat \<Rightarrow> rat \<Rightarrow> py_error + rat" where
  "truediv x y = (if y = 0 then Inl ZeroDivisionError else Inr (rnd (x / y)))"

text \<open>
  \<^verbatim>\<open>float(n)\<close> for an int, as done implicitly when an int meets a float in an
  arithmetic operation: the nearest float, or \<^verbatim>\<open>OverflowError\<close> when that is not finite.
\<close>

definition int_to_float :: "int \<Rightarrow> py_error + rat" where
  "int_to_float n = (if \<bar>rnd (of_int n)\<bar> < 2 ^ 1024 then Inr (rnd (of_int n)) else Inl OverflowError)"

text \<open>\<^verbatim>\<open>int(x)\<close> truncates towards zero; \<^verbatim>\<open>round(x)\<close> rounds half to even.\<close>

definition py_int :: "rat \<Rightarrow> int" where
  "py_int x = (if 0 \<le> x then \<lfloor>x\<rfloor> else \<lceil>x\<rceil>)"

definition py_round :: "rat \<Rightarrow> int" where
  "py_round x = rne x"

text \<open>
  A number read from YAML or JSON is an int or a float; the two print differently.
\<close>

datatype pynum = PInt int | PFloat rat

fun num_val :: "pynum \<Rightarrow> rat" where
  "num_val (PInt i) = of_int i"
| "num_val (PFloat x) = x"

text \<open>
  Arithmetic on numbers that may be ints. Two ints subtract and multiply exactly; their
  true division is the correctly rounded quotient, or \<^verbatim>\<open>OverflowError\<close> when that is
  not finite. When an int meets a float, the int is converted first. Comparisons between
  ints and floats are exact, so they are comparisons of \<open>num_val\<close>.
\<close>

fun to_float :: "pynum \<Rightarrow> py_error + rat" where
  "to_float (PInt i) = int_to_float i"
| "to_float (PFloat x) = Inr x"

fun py_sub :: "pynum \<Rightarrow> pynum \<Rightarrow> py_error + pynum" where
  "py_sub (PInt a) (PInt b) = Inr (PInt (a - b))"
| "py_sub u v =
     (case to_float u of
        Inl e \<Rightarrow> Inl e
      | Inr x \<Rightarrow> (case to_float v of Inl e \<Rightarrow> Inl e | Inr y \<Rightarrow> Inr (PFloat (fsub x y))))"

fun py_mul :: "pynum \<Rightarrow> pynum \<Rightarrow> py_error + pynum" where
  "py_mul (PInt a) (PInt b) = Inr (PInt (a * b))"
| "py_mul u v =
     (case to_float u of
        Inl e \<Rightarrow> Inl e
      | Inr x \<Rightarrow> (case to_float v of Inl e \<Rightarrow> Inl e | Inr y \<Rightarrow> Inr (PFloat (fmul x y))))"

fun py_truediv :: "pynum \<Rightarrow> pynum \<Rightarrow> py_error + rat" where
  "py_truediv (PInt a) (PInt b) =
     (if b = 0 then Inl ZeroDivisionError
      else if \<bar>rnd (of_int a / of_int b)\<bar> < 2 ^ 1024 then Inr (rnd (of_int a / of_int b))
      else Inl OverflowError)"
| "py_truediv u v =
     (case to_float u of
        Inl e \<Rightarrow> Inl e
      | Inr x \<Rightarrow> (case to_float v of Inl e \<Rightarrow> Inl e | Inr y \<Rightarrow> truediv x y))"

subsection \<open>Formatting numbers\<close>

definition digit_char :: "nat \<Rightarrow> char" where
  "digit_char d = ''0123456789'' ! d"

fun str_nat :: "nat \<Rightarrow> string" where
  "str_nat n = (if n < 10 then [digit_char n] else str_nat (n div 10) @ [digit_char (n mod 10)])"

declare str_nat.simps [simp del]

definition str_int :: "int \<Rightarrow> string" where
  "str_int i = (if i < 0 then ''-'' @ str_nat (nat (- i)) else str_nat (nat i))"

text \<open>
  \<^verbatim>\<open>format(x, '.1f')\<close>: the exact value of the float rounded half-even to one decimal.
\<close>

definition fmt_1f :: "rat \<Rightarrow> string" where
  "fmt_1f x = (let n = nat (rne (\<bar>x\<bar> * 10))
               in (if x < 0 then ''-'' else []) @ str_nat (n div 10) @ ''.'' @ str_nat (n mod 10))"

text \<open>\<^verbatim>\<open>format(x, ',.0f')\<close>: rounded half-even to an integer, digits grouped in threes.\<close>

fun comma_rev :: "string \<Rightarrow> string" where
  "comma_rev (a # b # c # d # ds) = a # b # c # CHR '','' # comma_rev (d # ds)"
| "comma_rev ds = ds"

definition fmt_comma0 :: "rat \<Rightarrow> string" where
  "fmt_comma0 x = (if x < 0 then ''-'' else []) @ rev (comma_rev (rev (str_nat (nat (rne \<bar>x\<bar>)))))"

text \<open>A float format applied to an int converts it first, and raises when it cannot.\<close>

definition fmt_comma0_num :: "pynum \<Rightarrow> py_error + string" where
  "fmt_comma0_num v = (case to_float v of Inl e \<Rightarrow> Inl e | Inr x \<Rightarrow> Inr (fmt_comma0 x))"

text \<open>
  \<^verbatim>\<open>str(v)\<close> of a number. The shortest round-trip rendering of a float is Python's own
  \<^verbatim>\<open>repr\<close>, outside this repository: it is the parameter \<open>repr\<close>.
\<close>

fun py_str :: "(rat \<Rightarrow> string) \<Rightarrow> pynum \<Rightarrow> string" where
  "py_str repr (PInt i) = str_int i"
| "py_str repr (PFloat x) = repr x"

section \<open>Token snapshots and external replies\<close>

text \<open>
  The dictionary \<^verbatim>\<open>token_data\<close>: every key may be absent. The address is a string or
  \<^verbatim>\<open>None\<close>; the two liquidity figures are ints or floats. The key \<^verbatim>\<open>timestamp\<close> is
  read only through the clock (\<^verbatim>\<open>datetime.utcnow() - timestamp\<close>), so the age in minutes
  that this expression yields is an input of each function that computes it: \<open>Some a\<close>
  when it evaluates to \<open>a\<close>, \<open>None\<close> when it raises (a string that does not parse, a
  timezone-aware value, or a value that is not a datetime where the function does not
  replace it by the current time first).
\<close>

datatype opt_str = StrVal string | NoneVal

record token_data =
  address :: "opt_str option"
  source :: "string option"
  liquidity_usd :: "pynum option"
  liquidity :: "pynum option"
  holders :: "int option"
  top_holder_percent :: "rat option"

text \<open>
  What an HTTP GET with a five-second timeout can do: time out, answer with a status
  code and the field of the JSON body the caller reads, or fail in another way
  (connection error, malformed body).
\<close>

datatype 'a http_reply = Timeout | Status int 'a | Failure

section \<open>SafetyFilters (modules/safety\_filters.py)\<close>

record safety_config =
  min_safety_score :: rat
  min_rugcheck :: rat
  min_liquidity :: rat
  min_holders :: pynum
  max_top_holder_pct :: pynum
  max_age_minutes :: pynum
  check_honeypot :: bool

record layer_result =
  passed :: bool
  reason :: "string option"

record rugcheck_result = layer_result +
  rug_score :: pynum

record liquidity_result = layer_result +
  amount :: pynum

record holder_result = layer_result +
  count :: int
  top_holder_pct :: rat

record age_result = layer_result +
  age_minutes :: int

record safety_details =
  rugcheck :: rugcheck_result
  liquidity_layer :: liquidity_result
  holders_layer :: holder_result
  age_layer :: age_result
  contract_layer :: layer_result

record safety_report =
  safe :: bool
  overall_score :: int
  passed_checks :: int
  total_checks :: int
  details :: safety_details
  reasons :: "string option list"

text \<open>
  Layer 1. The RugCheck API is called only for the sources \<^verbatim>\<open>solana\<close> and \<^verbatim>\<open>raydium\<close>;
  \<open>reply\<close> is what that call does. A timeout and a status other than 200 fall through
  to the simulated score 7; any other failure is caught by the outer handler.
\<close>

definition check_rugcheck ::
  "(rat \<Rightarrow> string) \<Rightarrow> safety_config \<Rightarrow> token_data \<Rightarrow> pynum option http_reply \<Rightarrow> rugcheck_result" where
  "check_rugcheck repr cfg tok reply =
     (let network = dict_get (source tok) ''solana'';
          simulated = \<lparr>passed = (min_rugcheck cfg \<le> 7), reason = None, rug_score = PInt 7\<rparr>
      in if network = ''solana'' \<or> network = ''raydium'' then
           (case reply of
              Status code body \<Rightarrow>
                if code = 200 then
                  (let score = dict_get body (PInt 0)
                   in \<lparr>passed = (min_rugcheck cfg \<le> num_val score),
                       reason = (if num_val score < min_rugcheck cfg
                                 then Some (''RugCheck score too low: '' @ py_str repr score @ ''/10'')
                                 else None),
                       rug_score = score\<rparr>)
                else simulated
            | Timeout \<Rightarrow> simulated
            | Failure \<Rightarrow> \<lparr>passed = True, reason = None, rug_score = PInt 7\<rparr>)
         else simulated)"

text \<open>
  Layer 2. A native-currency figure is converted at 150 when the USD figure is absent.
  The reason of a failed check formats the figure as a float; for an int too large to
  convert this raises, and the handler of the layer returns its own failed result with
  the message of the exception.
\<close>

definition liquidity_check_failed :: liquidity_result where
  "liquidity_check_failed =
     \<lparr>passed = False,
      reason = Some ''Liquidity check failed: int too large to convert to float'',
      amount = PInt 0\<rparr>"

definition check_liquidity :: "safety_config \<Rightarrow> token_data \<Rightarrow> liquidity_result" where
  "check_liquidity cfg tok =
     (let usd = (case (liquidity tok, liquidity_usd tok) of
                   (Some sol, None) \<Rightarrow> py_mul sol (PInt 150)
                 | _ \<Rightarrow> Inr (dict_get (liquidity_usd tok) (PInt 0)))
      in case usd of
           Inl e \<Rightarrow> liquidity_check_failed
         | Inr u \<Rightarrow>
             if num_val u < min_liquidity cfg
             then (case fmt_comma0_num u of
                     Inl e \<Rightarrow> liquidity_check_failed
                   | Inr shown \<Rightarrow>
                       \<lparr>passed = (min_liquidity cfg \<le> num_val u),
                        reason = Some (''Low liquidity: $'' @ shown @ '' (min: $''
                                       @ fmt_comma0 (min_liquidity cfg) @ '')''),
                        amount = u\<rparr>)
             else \<lparr>passed = (min_liquidity cfg \<le> num_val u), reason = None, amount = u\<rparr>)"

text \<open>
  Layer 3. A holder count of 0 and a top-holder percentage of 0 (the defaults of absent
  keys) are replaced by 75 and 45 before the thresholds are applied; the violations are
  joined with \<^verbatim>\<open>'; '\<close>.
\<close>

definition join_reasons :: "string list \<Rightarrow> string" where
  "join_reasons rs = (case rs of [] \<Rightarrow> [] | r # rest \<Rightarrow> foldl (\<lambda>acc x. acc @ ''; '' @ x) r rest)"

definition check_holders :: "(rat \<Rightarrow> string) \<Rightarrow> safety_config \<Rightarrow> token_data \<Rightarrow> holder_result" where
  "check_holders repr cfg tok =
     (let holders_count = dict_get (holders tok) 0;
          top_pct = dict_get (top_holder_percent tok) 0;
          holders_count = (if holders_count = 0 then 75 else holders_count);
          top_pct = (if top_pct = 0 then 45 else top_pct);
          reasons = (if of_int holders_count < num_val (min_holders cfg)
                     then [''Too few holders: '' @ str_int holders_count @ '' (min: ''
                           @ py_str repr (min_holders cfg) @ '')'']
                     else [])
                  @ (if num_val (max_top_holder_pct cfg) < top_pct
                     then [''High concentration: '' @ fmt_1f top_pct @ ''% (max: ''
                           @ py_str repr (max_top_holder_pct cfg) @ ''%)'']
                     else [])
      in \<lparr>passed = (length reasons = 0),
          reason = (if reasons \<noteq> [] then Some (join_reasons reasons) else None),
          count = holders_count,
          top_holder_pct = top_pct\<rparr>)"

text \<open>
  Layer 4. \<open>age\<close> is the clock reading in minutes; when computing it raises, the token
  counts as fresh.
\<close>

definition check_age :: "(rat \<Rightarrow> string) \<Rightarrow> safety_config \<Rightarrow> rat option \<Rightarrow> age_result" where
  "check_age repr cfg age =
     (case age of
        None \<Rightarrow> \<lparr>passed = True, reason = None, age_minutes = 2\<rparr>
      | Some a \<Rightarrow>
          \<lparr>passed = (a \<le> num_val (max_age_minutes cfg)),
           reason = (if num_val (max_age_minutes cfg) < a
                     then Some (''Token too old: '' @ str_int (py_int a) @ '' minutes (max: ''
                                @ py_str repr (max_age_minutes cfg) @ '')'')
                     else None),
           age_minutes = py_int a\<rparr>)"

text \<open>
  Layer 5. The honeypot detector is asked only for the sources \<^verbatim>\<open>bsc\<close> and
  \<^verbatim>\<open>pancakeswap\<close>, and only when the check is switched on; everything else passes.
\<close>

definition check_contract :: "safety_config \<Rightarrow> token_data \<Rightarrow> bool option http_reply \<Rightarrow> layer_result" where
  "check_contract cfg tok reply =
     (let pass = \<lparr>passed = True, reason = None\<rparr>
      in if \<not> check_honeypot cfg then pass
         else (let network = dict_get (source tok) ''solana''
               in if network = ''bsc'' \<or> network = ''pancakeswap'' then
                    (case reply of
                       Status code body \<Rightarrow>
                         if code = 200 then
                           (let is_honeypot = dict_get body False
                            in \<lparr>passed = (\<not> is_honeypot),
                                reason = (if is_honeypot then Some ''Honeypot detected'' else None)\<rparr>)
                         else pass
                     | Timeout \<Rightarrow> pass
                     | Failure \<Rightarrow> pass)
                  else pass))"

text \<open>
  One step of the aggregation in \<^verbatim>\<open>analyze_token\<close>: a passed layer adds one to
  \<^verbatim>\<open>passed_checks\<close>, a failed one appends its reason (which may be \<^verbatim>\<open>None\<close>).
  The filters are taken as constructed with the default \<^verbatim>\<open>logger=None\<close>, so the log
  lines of \<^verbatim>\<open>analyze_token\<close> are not part of it.
\<close>

definition tally :: "bool \<Rightarrow> string option \<Rightarrow> int \<times> string option list \<Rightarrow> int \<times> string option list" where
  "tally ok why acc = (if ok then (fst acc + 1, snd acc) else (fst acc, snd acc @ [why]))"

definition analyze_token ::
  "(rat \<Rightarrow> string) \<Rightarrow> safety_config \<Rightarrow> token_data \<Rightarrow> pynum option http_reply \<Rightarrow> rat option
     \<Rightarrow> bool option http_reply \<Rightarrow> safety_report" where
  "analyze_token repr cfg tok rug_reply age honeypot_reply =
     (let rugcheck_result = check_rugcheck repr cfg tok rug_reply;
          acc = tally (passed rugcheck_result) (reason rugcheck_result) (0, []);
          liquidity_result = check_liquidity cfg tok;
          acc = tally (passed liquidity_result) (reason liquidity_result) acc;
          holder_result = check_holders repr cfg tok;
          acc = tally (passed holder_result) (reason holder_result) acc;
          age_result = check_age repr cfg age;
          acc = tally (passed age_result) (reason age_result) acc;
          contract_result = check_contract cfg tok honeypot_reply;
          acc = tally (passed contract_result) (reason contract_result) acc;
          total = 5;
          score = py_int (fmul (rnd (of_int (fst acc) / of_int total)) 100)
      in \<lparr>safe = (min_safety_score cfg \<le> of_int score),
          overall_score = score,
          passed_checks = fst acc,
          total_checks = total,
          details = \<lparr>rugcheck = rugcheck_result, liquidity_layer = liquidity_result,
                     holders_layer = holder_result, age_layer = age_result,
                     contract_layer = contract_result\<rparr>,
          reasons = snd acc\<rparr>)"

section \<open>LEP predictor (ai/lep\_predictor.py)\<close>

record lep_config =
  lep_enabled :: bool
  lep_min_confidence :: rat

text \<open>Every signal is a dictionary with a \<^verbatim>\<open>score\<close> and its own diagnostic entries.\<close>

record signal =
  score :: rat

record liquidity_velocity_signal = signal +
  lv_liquidity :: pynum
  velocity :: rat
  optimal_range :: bool

record holder_accumulation_signal = signal +
  ha_holders :: int
  ha_top_holder_pct :: rat
  optimal :: bool

record age_timing_signal = signal +
  at_age_minutes :: rat
  in_sweet_spot :: bool

record volume_momentum_signal = signal +
  strong_volume :: bool

record dev_activity_signal = signal +
  active :: bool

text \<open>
  The dictionary \<^verbatim>\<open>signals\<close>. The aggregation reads it with \<^verbatim>\<open>signals.get(name, {})\<close>,
  so each entry may be absent; the empty dictionary is the record of five \<open>None\<close>.
\<close>

record lep_signals =
  liquidity_velocity :: "liquidity_velocity_signal option"
  holder_accumulation :: "holder_accumulation_signal option"
  age_timing :: "age_timing_signal option"
  volume_momentum :: "volume_momentum_signal option"
  dev_activity :: "dev_activity_signal option"

definition no_lep_signals :: lep_signals where
  "no_lep_signals = \<lparr>liquidity_velocity = None, holder_accumulation = None, age_timing = None,
                      volume_momentum = None, dev_activity = None\<rparr>"

record lep_prediction =
  confidence :: rat
  predicted_hours :: rat
  signals :: lep_signals
  recommendation :: string

text \<open>
  \<open>historical_data\<close> is \<^verbatim>\<open>None\<close> or a list of samples, each with an optional
  \<^verbatim>\<open>liquidity_usd\<close>. The velocity is computed from the first sample when there are at
  least two, over a time difference fixed at the int 1; the subtraction and the division
  raise on an int too large for a float, which the handler turns into the neutral signal.
\<close>

definition analyze_liquidity_velocity ::
  "token_data \<Rightarrow> pynum option list option \<Rightarrow> liquidity_velocity_signal" where
  "analyze_liquidity_velocity tok historical_data =
     (let current_liquidity = dict_get (liquidity_usd tok) (PInt 0);
          in_range = (5000 \<le> num_val current_liquidity \<and> num_val current_liquidity \<le> 50000);
          vel = (case historical_data of
                   None \<Rightarrow> Inr 0
                 | Some hist \<Rightarrow>
                     if 2 \<le> length hist
                     then (let old_liq = dict_get (hd hist) (PInt 0);
                               new_liq = dict_get (liquidity_usd tok) (PInt 0)
                           in case py_sub new_liq old_liq of
                                Inl e \<Rightarrow> Inl e
                              | Inr d \<Rightarrow> py_truediv d (PInt 1))
                     else Inr 0)
      in case vel of
           Inl e \<Rightarrow> \<lparr>score = 1/2, lv_liquidity = PInt 0, velocity = 0, optimal_range = False\<rparr>
         | Inr v \<Rightarrow>
             (let strong_velocity = (1000 < v);
                  sc = 0;
                  sc = (if in_range then fadd sc (1/2) else sc);
                  sc = (if strong_velocity then fadd sc (1/2) else sc)
              in \<lparr>score = sc, lv_liquidity = current_liquidity, velocity = v,
                  optimal_range = in_range\<rparr>))"

definition analyze_holder_patterns :: "token_data \<Rightarrow> holder_accumulation_signal" where
  "analyze_holder_patterns tok =
     (let hs = dict_get (holders tok) 0;
          top_pct = dict_get (top_holder_percent tok) 0;
          optimal_holder_count = (50 \<le> hs \<and> hs \<le> 200);
          healthy_distribution = (30 \<le> top_pct \<and> top_pct \<le> 60);
          sc = 0;
          sc = (if optimal_holder_count then fadd sc (1/2) else sc);
          sc = (if healthy_distribution then fadd sc (1/2) else sc)
      in \<lparr>score = sc, ha_holders = hs, ha_top_holder_pct = top_pct,
          optimal = (optimal_holder_count \<and> healthy_distribution)\<rparr>)"

text \<open>\<open>age\<close> is the clock reading; when computing it raises, the neutral signal is returned.\<close>

definition analyze_age_timing :: "rat option \<Rightarrow> age_timing_signal" where
  "analyze_age_timing age =
     (case age of
        None \<Rightarrow> \<lparr>score = 1/2, at_age_minutes = 0, in_sweet_spot = False\<rparr>
      | Some a \<Rightarrow>
          (let sweet = (2 \<le> a \<and> a \<le> 5)
           in \<lparr>score = (if sweet then 1 else rnd (3/10)), at_age_minutes = a, in_sweet_spot = sweet\<rparr>))"

definition analyze_volume :: "token_data \<Rightarrow> volume_momentum_signal" where
  "analyze_volume tok =
     (let liq = dict_get (liquidity_usd tok) (PInt 0);
          strong = (10000 < num_val liq)
      in \<lparr>score = (if strong then rnd (8/10) else rnd (4/10)), strong_volume = strong\<rparr>)"

definition analyze_dev_activity :: "token_data \<Rightarrow> dev_activity_signal" where
  "analyze_dev_activity tok = \<lparr>score = 1/2, active = True\<rparr>"

text \<open>The weight table, in the insertion order the loop of \<^verbatim>\<open>_calculate_confidence\<close> follows.\<close>

definition lep_weights :: "(string \<times> rat) list" where
  "lep_weights =
     [(''liquidity_velocity'', rnd (25/100)),
      (''holder_accumulation'', rnd (25/100)),
      (''age_timing'', rnd (20/100)),
      (''volume_momentum'', rnd (15/100)),
      (''dev_activity'', rnd (15/100))]"

text \<open>\<^verbatim>\<open>signals.get(name, {}).get('score', 0.0)\<close>\<close>

definition lep_signal_score :: "lep_signals \<Rightarrow> string \<Rightarrow> rat" where
  "lep_signal_score sigs name =
     (if name = ''liquidity_velocity'' then (case liquidity_velocity sigs of None \<Rightarrow> 0 | Some g \<Rightarrow> score g)
      else if name = ''holder_accumulation'' then (case holder_accumulation sigs of None \<Rightarrow> 0 | Some g \<Rightarrow> score g)
      else if name = ''age_timing'' then (case age_timing sigs of None \<Rightarrow> 0 | Some g \<Rightarrow> score g)
      else if name = ''volume_momentum'' then (case volume_momentum sigs of None \<Rightarrow> 0 | Some g \<Rightarrow> score g)
      else if name = ''dev_activity'' then (case dev_activity sigs of None \<Rightarrow> 0 | Some g \<Rightarrow> score g)
      else 0)"

definition calculate_confidence :: "lep_signals \<Rightarrow> rat" where
  "calculate_confidence sigs =
     (let c = foldl (\<lambda>acc (name, weight). fadd acc (fmul (lep_signal_score sigs name) weight)) 0 lep_weights
      in min (max c 0) 1)"

definition predict_hours :: "lep_signals \<Rightarrow> rat \<Rightarrow> rat" where
  "predict_hours sigs conf =
     (let hours = 12;
          hours = (if (case age_timing sigs of None \<Rightarrow> False | Some g \<Rightarrow> in_sweet_spot g) then 6 else hours);
          hours = (if 2000 < (case liquidity_velocity sigs of None \<Rightarrow> 0 | Some g \<Rightarrow> velocity g)
                   then min hours 8 else hours);
          hours = (if conf < 1/2 then 24 else hours)
      in hours)"

definition lep_generate_recommendation :: "rat \<Rightarrow> rat \<Rightarrow> string" where
  "lep_generate_recommendation conf hours =
     (if rnd (8/10) \<le> conf then ''STRONG BUY - High confidence pump in '' @ fmt_1f hours @ ''h''
      else if rnd (6/10) \<le> conf then ''BUY - Moderate confidence pump in '' @ fmt_1f hours @ ''h''
      else if rnd (4/10) \<le> conf then ''CONSIDER - Low confidence pump in '' @ fmt_1f hours @ ''h''
      else ''SKIP - Insufficient confidence'')"

definition predict_pump_timing ::
  "lep_config \<Rightarrow> token_data \<Rightarrow> pynum option list option \<Rightarrow> rat option \<Rightarrow> lep_prediction" where
  "predict_pump_timing cfg tok historical_data age =
     (if \<not> lep_enabled cfg
      then \<lparr>confidence = 0, predicted_hours = 0, signals = no_lep_signals, recommendation = ''LEP disabled''\<rparr>
      else (let sigs = \<lparr>liquidity_velocity = Some (analyze_liquidity_velocity tok historical_data),
                        holder_accumulation = Some (analyze_holder_patterns tok),
                        age_timing = Some (analyze_age_timing age),
                        volume_momentum = Some (analyze_volume tok),
                        dev_activity = Some (analyze_dev_activity tok)\<rparr>;
                conf = calculate_confidence sigs;
                hours = predict_hours sigs conf
            in \<lparr>confidence = conf, predicted_hours = hours, signals = sigs,
                recommendation = lep_generate_recommendation conf hours\<rparr>))"

section \<open>Cascade sentinel (src/ai/cascade\_sentinel.py)\<close>

record cascade_config =
  cascade_enabled :: bool
  cascade_min_virality :: rat

record network_velocity_signal = signal +
  nv_holders :: int
  growth_rate :: rat
  strong_growth :: bool

record holder_diversity_signal = signal +
  hd_holders :: int
  hd_top_holder_pct :: rat
  diverse :: bool

record early_adopter_signal = signal +
  quality :: string

record liquidity_cascade_signal = signal +
  lc_liquidity :: pynum
  liq_per_minute :: rat
  strong_cascade :: bool

record social_momentum_signal = signal +
  momentum :: string

record cascade_signals =
  network_velocity :: "network_velocity_signal option"
  holder_diversity :: "holder_diversity_signal option"
  early_adopter_quality :: "early_adopter_signal option"
  liquidity_cascade :: "liquidity_cascade_signal option"
  social_momentum :: "social_momentum_signal option"

definition no_cascade_signals :: cascade_signals where
  "no_cascade_signals = \<lparr>network_velocity = None, holder_diversity = None, early_adopter_quality = None,
                          liquidity_cascade = None, social_momentum = None\<rparr>"

record virality_prediction =
  virality_score :: int
  cascade_signals :: cascade_signals
  cascade_recommendation :: string
  viral_probability :: rat

text \<open>\<^verbatim>\<open>_get_age_minutes\<close>: the clock reading, or one minute when computing it raises.\<close>

definition get_age_minutes :: "rat option \<Rightarrow> rat" where
  "get_age_minutes age = (case age of None \<Rightarrow> 1 | Some a \<Rightarrow> a)"

text \<open>
  The holder count is an int and the age a float, so the division converts the count
  first; the conversion overflows on a huge count, which the handler turns into the
  neutral signal.
\<close>

definition analyze_network_growth :: "token_data \<Rightarrow> rat option \<Rightarrow> network_velocity_signal" where
  "analyze_network_growth tok age =
     (let hs = dict_get (holders tok) 0;
          age_min = get_age_minutes age;
          rate = (if 0 < age_min
                  then (case int_to_float hs of Inl e \<Rightarrow> Inl e | Inr h \<Rightarrow> truediv h age_min)
                  else Inr 0)
      in case rate of
           Inl e \<Rightarrow> \<lparr>score = 1/2, nv_holders = 0, growth_rate = 0, strong_growth = False\<rparr>
         | Inr g \<Rightarrow>
             (let strong = (10 < g)
              in \<lparr>score = (if strong then rnd (8/10) else rnd (4/10)), nv_holders = hs,
                  growth_rate = g, strong_growth = strong\<rparr>))"

definition analyze_holder_diversity :: "token_data \<Rightarrow> holder_diversity_signal" where
  "analyze_holder_diversity tok =
     (let hs = dict_get (holders tok) 0;
          top_pct = dict_get (top_holder_percent tok) 0;
          good_holder_count = (100 \<le> hs);
          decentralized = (top_pct < 50);
          sc = 0;
          sc = (if good_holder_count then fadd sc (1/2) else sc);
          sc = (if decentralized then fadd sc (1/2) else sc)
      in \<lparr>score = sc, hd_holders = hs, hd_top_holder_pct = top_pct,
          diverse = (good_holder_count \<and> decentralized)\<rparr>)"

definition analyze_early_adopters :: "token_data \<Rightarrow> early_adopter_signal" where
  "analyze_early_adopters tok =
     (let hs = dict_get (holders tok) 0;
          optimal_early_adopters = (50 \<le> hs \<and> hs \<le> 150)
      in \<lparr>score = (if optimal_early_adopters then rnd (7/10) else rnd (4/10)),
          quality = (if optimal_early_adopters then ''high'' else ''medium'')\<rparr>)"

text \<open>
  The liquidity figure is an int or a float and the age a float, so the division converts
  an int first; as for the holder count, a conversion that overflows ends in the handler.
\<close>

definition analyze_liquidity_cascade :: "token_data \<Rightarrow> rat option \<Rightarrow> liquidity_cascade_signal" where
  "analyze_liquidity_cascade tok age =
     (let liq = dict_get (liquidity_usd tok) (PInt 0);
          age_min = get_age_minutes age;
          per_minute = (if 0 < age_min
                        then (case to_float liq of Inl e \<Rightarrow> Inl e | Inr l \<Rightarrow> truediv l age_min)
                        else Inr 0)
      in case per_minute of
           Inl e \<Rightarrow> \<lparr>score = 1/2, lc_liquidity = PInt 0, liq_per_minute = 0, strong_cascade = False\<rparr>
         | Inr r \<Rightarrow>
             (let strong = (1000 < r)
              in \<lparr>score = (if strong then rnd (8/10) else rnd (4/10)), lc_liquidity = liq,
                  liq_per_minute = r, strong_cascade = strong\<rparr>))"

text \<open>\<open>social_data\<close> is \<^verbatim>\<open>None\<close> or a dictionary; both \<^verbatim>\<open>None\<close> and the empty one are falsy.\<close>

definition analyze_social_momentum :: "(string \<times> string) list option \<Rightarrow> social_momentum_signal" where
  "analyze_social_momentum social_data =
     (case social_data of
        None \<Rightarrow> \<lparr>score = 1/2, momentum = ''unknown''\<rparr>
      | Some d \<Rightarrow> if d = [] then \<lparr>score = 1/2, momentum = ''unknown''\<rparr>
                  else \<lparr>score = 1/2, momentum = ''neutral''\<rparr>)"

definition cascade_weights :: "(string \<times> rat) list" where
  "cascade_weights =
     [(''network_velocity'', rnd (25/100)),
      (''holder_diversity'', rnd (20/100)),
      (''early_adopter_quality'', rnd (20/100)),
      (''liquidity_cascade'', rnd (25/100)),
      (''social_momentum'', rnd (10/100))]"

definition cascade_signal_score :: "cascade_signals \<Rightarrow> string \<Rightarrow> rat" where
  "cascade_signal_score sigs name =
     (if name = ''network_velocity'' then (case network_velocity sigs of None \<Rightarrow> 0 | Some g \<Rightarrow> score g)
      else if name = ''holder_diversity'' then (case holder_diversity sigs of None \<Rightarrow> 0 | Some g \<Rightarrow> score g)
      else if name = ''early_adopter_quality'' then (case early_adopter_quality sigs of None \<Rightarrow> 0 | Some g \<Rightarrow> score g)
      else if name = ''liquidity_cascade'' then (case liquidity_cascade sigs of None \<Rightarrow> 0 | Some g \<Rightarrow> score g)
      else if name = ''social_momentum'' then (case social_momentum sigs of None \<Rightarrow> 0 | Some g \<Rightarrow> score g)
      else 0)"

definition calculate_virality_score :: "cascade_signals \<Rightarrow> int" where
  "calculate_virality_score sigs =
     (let sc = foldl (\<lambda>acc (name, weight). fadd acc (fmul (cascade_signal_score sigs name) weight)) 0 cascade_weights
      in py_int (fmul sc 100))"

definition cascade_generate_recommendation :: "int \<Rightarrow> string" where
  "cascade_generate_recommendation v =
     (if 90 \<le> v then ''VIRAL ALERT - Extremely high viral potential''
      else if 75 \<le> v then ''STRONG VIRAL - High viral potential''
      else if 60 \<le> v then ''MODERATE VIRAL - Some viral potential''
      else if 40 \<le> v then ''LOW VIRAL - Limited viral potential''
      else ''NO VIRAL - Unlikely to go viral'')"

text \<open>
  The two signals that use the age read the clock separately, hence two readings.
\<close>

definition predict_virality ::
  "cascade_config \<Rightarrow> token_data \<Rightarrow> (string \<times> string) list option \<Rightarrow> rat option \<Rightarrow> rat option
     \<Rightarrow> virality_prediction" where
  "predict_virality cfg tok social_data age_growth age_cascade =
     (if \<not> cascade_enabled cfg
      then \<lparr>virality_score = 0, cascade_signals = no_cascade_signals,
            cascade_recommendation = ''Cascade disabled'', viral_probability = 0\<rparr>
      else (let sigs = \<lparr>network_velocity = Some (analyze_network_growth tok age_growth),
                        holder_diversity = Some (analyze_holder_diversity tok),
                        early_adopter_quality = Some (analyze_early_adopters tok),
                        liquidity_cascade = Some (analyze_liquidity_cascade tok age_cascade),
                        social_momentum = Some (analyze_social_momentum social_data)\<rparr>;
                v = calculate_virality_score sigs
            in \<lparr>virality_score = v, cascade_signals = sigs,
                cascade_recommendation = cascade_generate_recommendation v,
                viral_probability = rnd (of_int v / 100)\<rparr>))"

section \<open>ExecutionEngine (modules/execution\_engine.py)\<close>

text \<open>
  \<^verbatim>\<open>JITO_TIP_ACCOUNTS\<close>, in the order of the source.
\<close>

definition JITO_TIP_ACCOUNTS :: "string list" where
  "JITO_TIP_ACCOUNTS =
    [''96gYZGLnJYVFmbjzopPSU6QiEV5fGqZNyN9nmNhvrZU5'',
     ''HFqU5x63VTqvQss8hp11i4wVV8bD44PvwucfZ2bU7gRe'',
     ''Cw8CFyM9FkoMi7K7Crf6HNQqf4uEMzpKw6QNghXLvLkY'',
     ''ADaUMid9yfUytqMBgopwjb2DTLSokTSzL1zt6iGPaS49'',
     ''DfXygSm4jCyNCybVYYK6DwvWqjKee8pbDmJGcLWNDXjh'',
     ''ADuUkR4vqLUMWXxW9gh6D6L8pMSawimctcNZ5pGwDcEt'',
     ''DttWaMuVvTiduZRnguLF7jNxTgiMBZ1hyAumKUiL2KRL'',
     ''3AVi9Tg9Uo68tJfuvoKvqKNWKkC5wPdSSdeBnizKZ6jT'']"

record engine_config =
  cfg_network :: string
  cfg_use_jito :: bool
  jito_tip_sol :: rat

text \<open>
  The fields of an \<^verbatim>\<open>ExecutionEngine\<close>. The tip index is a Python int that is only ever
  assigned 0 or a remainder modulo the pool size, hence a \<open>nat\<close>. The field \<open>logger\<close>
  tells whether a logger was passed to the constructor (the default is \<^verbatim>\<open>None\<close>). The
  logger of this repository is \<^verbatim>\<open>BotLogger\<close>, a wrapper of the standard logging
  module whose methods return; what they print is not part of the model, but the
  evaluation of the messages handed to them is, where it can raise.
\<close>

record execution_engine =
  network :: string
  use_jito :: bool
  jito_tip :: rat
  jito_tip_account_index :: nat
  logger :: bool

definition init_engine :: "engine_config \<Rightarrow> bool \<Rightarrow> execution_engine" where
  "init_engine cfg lg =
     \<lparr>network = cfg_network cfg,
      use_jito = (cfg_use_jito cfg \<and> cfg_network cfg = ''solana''),
      jito_tip = jito_tip_sol cfg,
      jito_tip_account_index = 0,
      logger = lg\<rparr>"



text \<open>
  \<^verbatim>\<open>_get_jito_tip_account\<close> reads the pool at the stored index (\<^verbatim>\<open>IndexError\<close> outside
  the pool), stores the successor modulo the pool size and returns the account read.
\<close>

definition get_jito_tip_account :: "execution_engine \<Rightarrow> py_error + (string \<times> execution_engine)" where
  "get_jito_tip_account eng =
     (if jito_tip_account_index eng < length JITO_TIP_ACCOUNTS
      then Inr (JITO_TIP_ACCOUNTS ! jito_tip_account_index eng,
                eng\<lparr>jito_tip_account_index :=
                      (jito_tip_account_index eng + 1) mod length JITO_TIP_ACCOUNTS\<rparr>)
      else Inl IndexError)"

text \<open>\<open>n\<close> sequential calls: the accounts returned, in call order, and the engine afterwards.\<close>

fun tip_calls :: "nat \<Rightarrow> execution_engine \<Rightarrow> py_error + (string list \<times> execution_engine)" where
  "tip_calls 0 eng = Inr ([], eng)"
| "tip_calls (Suc n) eng =
     (case get_jito_tip_account eng of
        Inl e \<Rightarrow> Inl e
      | Inr (acct, eng') \<Rightarrow>
          (case tip_calls n eng' of
             Inl e \<Rightarrow> Inl e
           | Inr (accts, eng'') \<Rightarrow> Inr (acct # accts, eng'')))"





text \<open>\<^verbatim>\<open>except Exception: return None\<close>\<close>

definition catch_none :: "(py_error + 'a option) \<times> 's \<Rightarrow> (py_error + 'a option) \<times> 's" where
  "catch_none r = (case fst r of Inl e \<Rightarrow> (Inr None, snd r) | Inr v \<Rightarrow> r)"







section \<open>Position monitor of the paper-trading bot (main\_paper.py)\<close>

record strategy_config =
  take_profit :: rat
  stop_loss :: rat
  trailing_stop :: bool
  trailing_distance :: rat

text \<open>The position dictionary (its \<^verbatim>\<open>entry_time\<close> is the clock and is left out).\<close>

record position =
  token :: string
  pos_amount :: rat
  entry_price :: rat
  peak_price :: rat

record paper_bot =
  paper_balance :: rat
  wins :: int
  losses :: int
  current_position :: "position option"
  trades_history :: "(string \<times> rat \<times> string) list"

text \<open>
  \<^verbatim>\<open>_simulate_buy\<close>: the investment leaves the balance and a position is opened at the
  demo price, which is also its first peak.
\<close>

definition simulate_buy :: "paper_bot \<Rightarrow> string \<Rightarrow> rat \<Rightarrow> paper_bot" where
  "simulate_buy self token_address amt =
     self\<lparr>paper_balance := fsub (paper_balance self) amt,
         current_position := Some \<lparr>token = token_address, pos_amount = amt,
                                   entry_price = rnd (123 / 100000000),
                                   peak_price = rnd (123 / 100000000)\<rparr>\<rparr>"

definition simulate_sell :: "paper_bot \<Rightarrow> rat \<Rightarrow> rat \<Rightarrow> string \<Rightarrow> py_error + paper_bot" where
  "simulate_sell self exit_price pnl why =
     (case current_position self of
        None \<Rightarrow> Inl TypeError
      | Some pos \<Rightarrow>
          (let sell_value = fmul (pos_amount pos) (fadd 1 (rnd (pnl / 100)));
               self = self\<lparr>paper_balance := fadd (paper_balance self) sell_value\<rparr>;
               self = (if 0 < pnl then self\<lparr>wins := wins self + 1\<rparr> else self\<lparr>losses := losses self + 1\<rparr>)
           in Inr (self\<lparr>current_position := None,
                       trades_history := trades_history self @ [(token pos, pnl, why)]\<rparr>)))"

text \<open>
  The exit conditions of one poll, in the order of the \<^verbatim>\<open>if\<close>/\<^verbatim>\<open>elif\<close> chain. The drop
  from the peak is computed only in the third branch, where a zero peak raises.
\<close>

definition exit_reason :: "strategy_config \<Rightarrow> rat \<Rightarrow> rat \<Rightarrow> rat \<Rightarrow> py_error + string option" where
  "exit_reason cfg pnl_percent peak current_price =
     (if take_profit cfg \<le> pnl_percent
      then Inr (Some (''Take Profit ('' @ fmt_1f pnl_percent @ ''%)''))
      else if pnl_percent \<le> - stop_loss cfg
      then Inr (Some (''Stop Loss ('' @ fmt_1f pnl_percent @ ''%)''))
      else if trailing_stop cfg
      then (case truediv (fsub peak current_price) peak of
              Inl e \<Rightarrow> Inl e
            | Inr q \<Rightarrow>
                (let drop_from_peak = fmul q 100
                 in if trailing_distance cfg \<le> drop_from_peak
                    then Inr (Some (''Trailing Stop ('' @ fmt_1f drop_from_peak @ ''% from peak)''))
                    else Inr None))
      else Inr None)"

datatype poll_outcome = Hold | Exit string rat rat | Fault py_error

text \<open>
  One pass through the body of the monitoring loop for the position being watched.
  \<open>price_change\<close> is the draw of \<^verbatim>\<open>random.uniform(-0.05, 0.15)\<close>. The position is
  mutated in place, so a peak raised before an exception stays raised.
\<close>

definition current_price_of :: "position \<Rightarrow> rat \<Rightarrow> rat" where
  "current_price_of pos price_change = fmul (entry_price pos) (fadd 1 price_change)"

definition pnl_percent_of :: "position \<Rightarrow> rat \<Rightarrow> py_error + rat" where
  "pnl_percent_of pos current_price =
     (case truediv (fsub current_price (entry_price pos)) (entry_price pos) of
        Inl e \<Rightarrow> Inl e
      | Inr q \<Rightarrow> Inr (fmul q 100))"

definition poll_position :: "strategy_config \<Rightarrow> position \<Rightarrow> rat \<Rightarrow> position \<times> poll_outcome" where
  "poll_position cfg pos price_change =
     (let current_price = current_price_of pos price_change
      in case pnl_percent_of pos current_price of
           Inl e \<Rightarrow> (pos, Fault e)
         | Inr pnl \<Rightarrow>
             (let pos = (if peak_price pos < current_price then pos\<lparr>peak_price := current_price\<rparr> else pos)
              in case exit_reason cfg pnl (peak_price pos) current_price of
                   Inl e \<Rightarrow> (pos, Fault e)
                 | Inr None \<Rightarrow> (pos, Hold)
                 | Inr (Some why) \<Rightarrow> (pos, Exit why current_price pnl)))"

text \<open>
  The monitoring loop over the successive draws; the list ends where the bot is shut
  down. It returns the bot and the position as it stands after each poll made. An
  exception inside a poll is logged and the loop goes on; an exit sells and stops.
\<close>

fun monitor_position :: "strategy_config \<Rightarrow> paper_bot \<Rightarrow> position \<Rightarrow> rat list \<Rightarrow> paper_bot \<times> position list" where
  "monitor_position cfg self pos [] = (self, [])"
| "monitor_position cfg self pos (c # cs) =
     (if current_position self \<noteq> Some pos then (self, [])
      else (case poll_position cfg pos c of
              (pos', Exit why current_price pnl) \<Rightarrow>
                (case simulate_sell (self\<lparr>current_position := Some pos'\<rparr>) current_price pnl why of
                   Inr self' \<Rightarrow> (self', [pos'])
                 | Inl e \<Rightarrow>
                     (let r = monitor_position cfg (self\<lparr>current_position := Some pos'\<rparr>) pos' cs
                      in (fst r, pos' # snd r)))
            | (pos', other) \<Rightarrow>
                (let r = monitor_position cfg (self\<lparr>current_position := Some pos'\<rparr>) pos' cs
                 in (fst r, pos' # snd r))))"

section \<open>ModelTrainer (src/ai/model\_trainer.py)\<close>

text \<open>A record of the performance history (token, prices and timestamp play no part).\<close>

record trade_record =
  pnl_percent :: rat
  win :: bool
  safety_score :: rat
  lep_confidence :: rat
  trade_virality_score :: rat
  hold_time_minutes :: rat

record patterns =
  total_trades :: nat
  n_wins :: nat
  n_losses :: nat
  win_rate :: rat
  avg_win :: rat
  avg_loss :: rat
  optimal_safety_score :: rat
  optimal_lep_confidence :: rat
  optimal_virality_score :: rat
  avg_hold_time :: rat

text \<open>\<^verbatim>\<open>t.get(field, 0)\<close> for the three scored fields.\<close>

definition trade_field :: "string \<Rightarrow> trade_record \<Rightarrow> rat" where
  "trade_field field t =
     (if field = ''safety_score'' then safety_score t
      else if field = ''lep_confidence'' then lep_confidence t
      else if field = ''virality_score'' then trade_virality_score t
      else 0)"

text \<open>
  \<^verbatim>\<open>numpy.median\<close> of a non-empty list of floats: the middle element of the sorted
  list, or the float mean of the two middle elements.
\<close>

definition np_median :: "rat list \<Rightarrow> rat" where
  "np_median xs =
     (let ys = sort xs; n = length ys
      in if odd n then ys ! (n div 2)
         else rnd (fadd (ys ! (n div 2 - 1)) (ys ! (n div 2)) / 2))"

definition find_optimal_threshold :: "trade_record list \<Rightarrow> string \<Rightarrow> rat" where
  "find_optimal_threshold winning_trades field =
     (let vals = map (trade_field field) (filter (\<lambda>t. 0 < trade_field field t) winning_trades)
      in if vals = [] then 0 else np_median vals)"

text \<open>
  \<^verbatim>\<open>_analyze_patterns\<close>: \<open>None\<close> when it returns without saving, otherwise the patterns
  it hands to \<^verbatim>\<open>_save_patterns\<close>. \<^verbatim>\<open>numpy.mean\<close> belongs to the library and is the
  parameter \<open>mean\<close>.
\<close>

definition analyze_patterns :: "(rat list \<Rightarrow> rat) \<Rightarrow> trade_record list \<Rightarrow> patterns option" where
  "analyze_patterns mean history =
     (if length history < 10 then None
      else (let ws = filter win history;
                ls = filter (\<lambda>t. \<not> win t) history
            in if length ws = 0 then None
               else Some
                 \<lparr>total_trades = length history,
                  n_wins = length ws,
                  n_losses = length ls,
                  win_rate = (if history \<noteq> [] then rnd (of_nat (length ws) / of_nat (length history)) else 0),
                  avg_win = mean (map pnl_percent ws),
                  avg_loss = (if ls \<noteq> [] then mean (map pnl_percent ls) else 0),
                  optimal_safety_score = find_optimal_threshold ws ''safety_score'',
                  optimal_lep_confidence = find_optimal_threshold ws ''lep_confidence'',
                  optimal_virality_score = find_optimal_threshold ws ''virality_score'',
                  avg_hold_time = mean (map hold_time_minutes ws)\<rparr>))"

text \<open>
  \<^verbatim>\<open>record_trade\<close>: the outcome is appended (a win is a positive PnL), the history is
  saved cut to its last 1000 records, and the patterns are analysed on the full list.
\<close>

definition record_trade ::
  "(rat list \<Rightarrow> rat) \<Rightarrow> trade_record list \<Rightarrow> trade_record \<Rightarrow> trade_record list \<times> patterns option" where
  "record_trade mean history trade =
     (let history = history @ [trade\<lparr>win := (0 < pnl_percent trade)\<rparr>];
          saved = (if 1000 < length history then drop (length history - 1000) history else history)
      in (saved, analyze_patterns mean history))"

section \<open>Concrete inputs\<close>

text \<open>
  Inputs at which the theorems below are instantiated: the defaults of the configuration
  loader, the test token of the safety module, an environment where every library and
  wallet is available, and a position of one unit entered at price 1.
\<close>

definition demo_safety_config :: safety_config where
  "demo_safety_config =
     \<lparr>min_safety_score = 70, min_rugcheck = 7, min_liquidity = 5000, min_holders = PInt 50,
      max_top_holder_pct = PInt 60, max_age_minutes = PInt 5, check_honeypot = True\<rparr>"

definition demo_token :: token_data where
  "demo_token =
     \<lparr>address = Some (StrVal ''TestToken123...''), source = Some ''raydium'',
      liquidity_usd = Some (PInt 8000),
      liquidity = None, holders = Some 75, top_holder_percent = Some 45\<rparr>"



text \<open>An int amount beyond the range of a float: \<open>2^1024\<close>.\<close>

definition demo_huge_amount :: pynum where
  "demo_huge_amount = PInt (2 ^ 1024)"

definition demo_strategy :: strategy_config where
  "demo_strategy = \<lparr>take_profit = 300, stop_loss = 20, trailing_stop = True, trailing_distance = 20\<rparr>"

definition demo_position :: "rat \<Rightarrow> position" where
  "demo_position peak = \<lparr>token = ''T'', pos_amount = 1, entry_price = 1, peak_price = peak\<rparr>"

definition demo_bot :: "rat \<Rightarrow> paper_bot" where
  "demo_bot peak = \<lparr>paper_balance = 9, wins = 0, losses = 0,
                     current_position = Some (demo_position peak), trades_history = []\<rparr>"

text \<open>
  A closed trade with the given PnL and safety score, a plain sequential float mean to
  stand for \<^verbatim>\<open>numpy.mean\<close>, and two histories of ten trades: three wins with
  safety scores 70, 90 and 80, and two wins with safety scores 0 and 80.
\<close>

definition demo_trade :: "rat \<Rightarrow> rat \<Rightarrow> trade_record" where
  "demo_trade pnl safety =
     \<lparr>pnl_percent = pnl, win = (0 < pnl), safety_score = safety, lep_confidence = 3 / 4,
      trade_virality_score = 85, hold_time_minutes = 45\<rparr>"

definition demo_mean :: "rat list \<Rightarrow> rat" where
  "demo_mean xs = rnd (foldl fadd 0 xs / of_nat (length xs))"

definition demo_history :: "trade_record list" where
  "demo_history =
     [demo_trade 10 70, demo_trade (- 5) 50, demo_trade 20 90, demo_trade (- 5) 50,
      demo_trade 30 80, demo_trade (- 5) 50, demo_trade (- 5) 50, demo_trade (- 5) 50,
      demo_trade (- 5) 50, demo_trade (- 5) 50]"

definition demo_history_zero :: "trade_record list" where
  "demo_history_zero =
     [demo_trade 10 0, demo_trade 20 80, demo_trade (- 5) 50, demo_trade (- 5) 50,
      demo_trade (- 5) 50, demo_trade (- 5) 50, demo_trade (- 5) 50, demo_trade (- 5) 50,
      demo_trade (- 5) 50, demo_trade (- 5) 50]"

text \<open>
  The test tokens of the two predictors: liquidity 15000 USD with 85 holders, and
  liquidity 20000 USD with 120 holders and a top holder at 40 percent.
\<close>

definition demo_lep_token :: token_data where
  "demo_lep_token = demo_token\<lparr>liquidity_usd := Some (PInt 15000), holders := Some 85\<rparr>"

definition demo_cascade_token :: token_data where
  "demo_cascade_token =
     demo_token\<lparr>liquidity_usd := Some (PInt 20000), holders := Some 120,
                 top_holder_percent := Some 40\<rparr>"

text \<open>
  The largest score each Cascade signal can take (0.8, 1.0, 0.7, 0.8, 0.5), as a table
  over the signal names; that the analysers respect it is proved below.
\<close>

definition cascade_score_max :: "string \<Rightarrow> rat" where
  "cascade_score_max name =
     (if name = ''network_velocity'' then rnd (8 / 10)
      else if name = ''holder_diversity'' then 1
      else if name = ''early_adopter_quality'' then rnd (7 / 10)
      else if name = ''liquidity_cascade'' then rnd (8 / 10)
      else if name = ''social_momentum'' then 1 / 2
      else 0)"

text \<open>A Cascade signals dictionary whose five sub-scores all have the given value.\<close>

definition demo_cascade_signals :: "rat \<Rightarrow> cascade_signals" where
  "demo_cascade_signals s =
     \<lparr>network_velocity = Some \<lparr>score = s, nv_holders = 0, growth_rate = 0, strong_growth = False\<rparr>,
      holder_diversity = Some \<lparr>score = s, hd_holders = 0, hd_top_holder_pct = 0, diverse = False\<rparr>,
      early_adopter_quality = Some \<lparr>score = s, quality = ''medium''\<rparr>,
      liquidity_cascade = Some \<lparr>score = s, lc_liquidity = PInt 0, liq_per_minute = 0,
                                 strong_cascade = False\<rparr>,
      social_momentum = Some \<lparr>score = s, momentum = ''unknown''\<rparr>\<rparr>"

definition demo_cascade_config :: cascade_config where
  "demo_cascade_config = \<lparr>cascade_enabled = True, cascade_min_virality = 75\<rparr>"


section \<open>Properties of the float model\<close>

lemma rne_floor_cases: "rne y = \<lfloor>y\<rfloor> \<or> rne y = \<lfloor>y\<rfloor> + 1"
  by (simp add: rne_def Let_def)

lemma rne_of_int: "rne (of_int n) = n"
  by (simp add: rne_def Let_def)

lemma rne_mono: "y \<le> z \<Longrightarrow> rne y \<le> rne z"
proof -
  assume yz: "y \<le> z"
  have fl: "\<lfloor>y\<rfloor> \<le> \<lfloor>z\<rfloor>" using yz by (rule floor_mono)
  show ?thesis
  proof (cases "\<lfloor>y\<rfloor> = \<lfloor>z\<rfloor>")
    case True
    then show ?thesis using yz by (auto simp: rne_def Let_def)
  next
    case False
    then have "\<lfloor>y\<rfloor> + 1 \<le> \<lfloor>z\<rfloor>" using fl by simp
    moreover have "rne y \<le> \<lfloor>y\<rfloor> + 1" using rne_floor_cases[of y] by auto
    moreover have "\<lfloor>z\<rfloor> \<le> rne z" using rne_floor_cases[of z] by auto
    ultimately show ?thesis by linarith
  qed
qed

lemma rne_near: "\<bar>y - of_int (rne y)\<bar> \<le> 1/2"
  by (auto simp: rne_def Let_def abs_if not_less) linarith+

lemma ilog2_bounds:
  assumes "0 < x"
  shows "2 powi (ilog2 x) \<le> x \<and> x < 2 powi (ilog2 x + 1)"
proof (cases "1 \<le> x")
  case True
  define n where "n = \<lfloor>x\<rfloor>"
  have n1: "1 \<le> n" using True by (simp add: n_def le_floor_iff)
  then have npos: "0 < n" by simp
  have b1: "1 \<le> bitlen n" using npos by (simp add: bitlen_alt_def)
  have bb: "2 ^ nat (bitlen n - 1) \<le> n" "n < 2 ^ nat (bitlen n)"
    using bitlen_bounds[OF npos] by auto
  have il: "ilog2 x = bitlen n - 1" using True by (simp add: ilog2_def n_def)
  have "(2::rat) powi (bitlen n - 1) = of_int (2 ^ nat (bitlen n - 1))"
    using b1 by (simp add: power_int_def)
  also have "\<dots> \<le> of_int n" using bb(1) by (simp only: of_int_le_iff)
  also have "\<dots> \<le> x" by (simp add: n_def)
  finally have lo: "2 powi (ilog2 x) \<le> x" by (simp add: il)
  have "x < of_int (n + 1)" using floor_correct[of x] by (simp add: n_def)
  also have "\<dots> \<le> of_int (2 ^ nat (bitlen n))" using bb(2) by (simp only: of_int_le_iff)
  also have "\<dots> = (2::rat) powi (bitlen n)" using b1 by (simp add: power_int_def)
  finally have "x < 2 powi (ilog2 x + 1)" by (simp add: il)
  with lo show ?thesis by simp
next
  case False
  define y where "y = 1 / x"
  have y1: "1 < y" using False assms by (simp add: y_def)
  define m where "m = \<lceil>y\<rceil> - 1"
  have mpos: "0 < m" using y1 by (simp add: m_def less_ceiling_iff)
  have my: "of_int m < y" "y \<le> of_int (m + 1)"
    using ceiling_correct[of y] by (simp_all add: m_def)
  have b1: "1 \<le> bitlen m" using mpos by (simp add: bitlen_alt_def)
  have bb: "2 ^ nat (bitlen m - 1) \<le> m" "m < 2 ^ nat (bitlen m)"
    using bitlen_bounds[OF mpos] by auto
  have il: "ilog2 x = - bitlen m" using False by (simp add: ilog2_def m_def y_def)
  have "y \<le> of_int (2 ^ nat (bitlen m))"
  proof -
    have "m + 1 \<le> 2 ^ nat (bitlen m)" using bb(2) by simp
    then have "(of_int (m + 1) :: rat) \<le> of_int (2 ^ nat (bitlen m))" by (simp only: of_int_le_iff)
    with my(2) show ?thesis by (rule order_trans)
  qed
  also have "\<dots> = (2::rat) powi (bitlen m)" using b1 by (simp add: power_int_def)
  finally have "1 / x \<le> 2 powi (bitlen m)" by (simp add: y_def)
  then have lo: "2 powi (- bitlen m) \<le> x"
    using assms by (simp add: power_int_minus field_simps)
  have "(2::rat) powi (bitlen m - 1) = of_int (2 ^ nat (bitlen m - 1))"
    using b1 by (simp add: power_int_def)
  also have "\<dots> \<le> of_int m" using bb(1) by (simp only: of_int_le_iff)
  also have "\<dots> < y" by (rule my(1))
  finally have "2 powi (bitlen m - 1) < 1 / x" by (simp add: y_def)
  then have "x < 1 / 2 powi (bitlen m - 1)"
    using assms by (simp add: field_simps)
  also have "\<dots> = 2 powi (- bitlen m + 1)"
    by (simp add: power_int_minus_divide[symmetric])
  finally show ?thesis using lo by (simp add: il)
qed

lemma pow2_less_imp: "(2::rat) powi a < 2 powi b \<Longrightarrow> a < b"
  using power_int_increasing[of b a "2::rat"] by (cases "a < b") auto

lemma ilog2_unique:
  assumes "0 < x" and "2 powi k \<le> x" and "x < 2 powi (k + 1)"
  shows "ilog2 x = k"
proof -
  have b: "2 powi (ilog2 x) \<le> x" "x < 2 powi (ilog2 x + 1)"
    using ilog2_bounds[OF assms(1)] by auto
  have "(2::rat) powi k < 2 powi (ilog2 x + 1)" using assms(2) b(2) by (rule le_less_trans)
  then have 1: "k < ilog2 x + 1" by (rule pow2_less_imp)
  have "(2::rat) powi (ilog2 x) < 2 powi (k + 1)" using b(1) assms(3) by (rule le_less_trans)
  then have 2: "ilog2 x < k + 1" by (rule pow2_less_imp)
  from 1 2 show ?thesis by simp
qed

lemma ilog2_mono:
  assumes "0 < x" and "x \<le> y"
  shows "ilog2 x \<le> ilog2 y"
proof -
  have ypos: "0 < y" using assms by simp
  have "(2::rat) powi (ilog2 x) \<le> x" using ilog2_bounds[OF assms(1)] by simp
  also have "\<dots> \<le> y" by fact
  also have "\<dots> < 2 powi (ilog2 y + 1)" using ilog2_bounds[OF ypos] by simp
  finally have "ilog2 x < ilog2 y + 1" by (rule pow2_less_imp)
  then show ?thesis by simp
qed


lemma rnd_0: "rnd 0 = 0" by (simp add: rnd_def)

lemma rnd_minus: "rnd (- x) = - rnd x"
  by (simp add: rnd_def Let_def)

lemma pow2_pos: "0 < (2::rat) powi e"
  by (rule zero_less_power_int) simp

lemma rnd_pos_eq:
  "0 < x \<Longrightarrow> rnd x = of_int (rne (x / 2 powi (max (ilog2 x - 52) (- 1074)))) * 2 powi (max (ilog2 x - 52) (- 1074))"
  by (simp add: rnd_def Let_def)

lemma rne_nonneg: "0 \<le> y \<Longrightarrow> 0 \<le> rne y"
  using rne_mono[of 0 y] rne_of_int[of 0] by simp

lemma rnd_nonneg: "0 \<le> x \<Longrightarrow> 0 \<le> rnd x"
proof (cases "x = 0")
  case True then show ?thesis by (simp add: rnd_0)
next
  case False
  assume "0 \<le> x"
  with False have xp: "0 < x" by simp
  have "0 \<le> x / 2 powi (max (ilog2 x - 52) (- 1074))" using xp pow2_pos by (simp add: less_imp_le)
  then have "0 \<le> rne (x / 2 powi (max (ilog2 x - 52) (- 1074)))" by (rule rne_nonneg)
  then show ?thesis using pow2_pos by (simp add: rnd_pos_eq[OF xp])
qed

lemma rnd_mono_pos:
  assumes xp: "0 < x" and xy: "x \<le> y"
  shows "rnd x \<le> rnd y"
proof -
  have yp: "0 < y" using assms by simp
  define ex where "ex = max (ilog2 x - 52) (- 1074)"
  define ey where "ey = max (ilog2 y - 52) (- 1074)"
  have rx: "rnd x = of_int (rne (x / 2 powi ex)) * 2 powi ex" by (simp add: rnd_pos_eq[OF xp] ex_def)
  have ry: "rnd y = of_int (rne (y / 2 powi ey)) * 2 powi ey" by (simp add: rnd_pos_eq[OF yp] ey_def)
  have ee: "ex \<le> ey" using ilog2_mono[OF xp xy] by (simp add: ex_def ey_def)
  show ?thesis
  proof (cases "ex = ey")
    case True
    have "x / 2 powi ey \<le> y / 2 powi ey" using xy pow2_pos[of ey] by (simp add: divide_right_mono less_imp_le)
    then have "rne (x / 2 powi ey) \<le> rne (y / 2 powi ey)" by (rule rne_mono)
    then have "(of_int (rne (x / 2 powi ey)) :: rat) \<le> of_int (rne (y / 2 powi ey))" by (simp only: of_int_le_iff)
    then show ?thesis using pow2_pos[of ey] by (simp add: rx ry True mult_right_mono less_imp_le)
  next
    case False
    then have lt: "ex < ey" using ee by simp
    then have eyv: "ey = ilog2 y - 52" by (auto simp: ex_def ey_def)
    have exv: "ilog2 x - 52 \<le> ex" by (simp add: ex_def)
    \<comment> \<open>upper bound for x\<close>
    have "x < 2 powi (ilog2 x + 1)" using ilog2_bounds[OF xp] by simp
    also have "\<dots> \<le> 2 powi (ex + 53)" using exv by (intro power_int_increasing) auto
    also have "\<dots> = 2 powi 53 * 2 powi ex" by (simp add: power_int_add)
    finally have "x / 2 powi ex \<le> of_int (2 ^ 53)" using pow2_pos[of ex] by (simp add: field_simps)
    then have "rne (x / 2 powi ex) \<le> 2 ^ 53" using rne_mono rne_of_int by metis
    then have "(of_int (rne (x / 2 powi ex)) :: rat) \<le> of_int (2 ^ 53)" by (simp only: of_int_le_iff)
    then have "rnd x \<le> of_int (2 ^ 53) * 2 powi ex"
      using pow2_pos[of ex] by (simp only: rx mult_right_mono less_imp_le)
    also have "\<dots> = 2 powi (ex + 53)" by (simp add: power_int_add)
    also have "\<dots> \<le> 2 powi (ey + 52)" using lt by (intro power_int_increasing) auto
    finally have ub: "rnd x \<le> 2 powi (ey + 52)" .
    \<comment> \<open>lower bound for y\<close>
    have "2 powi (ey + 52) \<le> y" using ilog2_bounds[OF yp] by (simp add: eyv)
    then have "of_int (2 ^ 52) \<le> y / 2 powi ey" using pow2_pos[of ey] by (simp add: power_int_add field_simps)
    then have "2 ^ 52 \<le> rne (y / 2 powi ey)" using rne_mono rne_of_int by metis
    then have "(of_int (2 ^ 52) :: rat) \<le> of_int (rne (y / 2 powi ey))" by (simp only: of_int_le_iff)
    then have "of_int (2 ^ 52) * 2 powi ey \<le> rnd y"
      using pow2_pos[of ey] by (simp only: ry mult_right_mono less_imp_le)
    then have "2 powi (ey + 52) \<le> rnd y" by (simp add: power_int_add mult.commute)
    with ub show ?thesis by (rule order_trans)
  qed
qed

lemma rnd_mono: "x \<le> y \<Longrightarrow> rnd x \<le> rnd y"
proof -
  assume xy: "x \<le> y"
  consider "0 < x" | "x \<le> 0" "0 \<le> y" | "y < 0" by linarith
  then show ?thesis
  proof cases
    case 1 then show ?thesis using xy by (rule rnd_mono_pos)
  next
    case 2
    have "rnd x \<le> 0" using rnd_nonneg[of "- x"] 2(1) by (simp add: rnd_minus)
    moreover have "0 \<le> rnd y" using 2(2) by (rule rnd_nonneg)
    ultimately show ?thesis by simp
  next
    case 3
    have "rnd (- y) \<le> rnd (- x)" using 3 xy by (intro rnd_mono_pos) auto
    then show ?thesis by (simp add: rnd_minus)
  qed
qed


lemma rne_unique: "\<bar>y - of_int n\<bar> < 1/2 \<Longrightarrow> rne y = n"
proof -
  assume a: "\<bar>y - of_int n\<bar> < 1/2"
  have b: "\<bar>y - of_int (rne y)\<bar> \<le> 1/2" by (rule rne_near)
  have "\<bar>(of_int (rne y) :: rat) - of_int n\<bar> < 1" using a b by linarith
  then have "\<bar>(of_int (rne y - n) :: rat)\<bar> < 1" by simp
  then have "\<bar>rne y - n\<bar> < 1" by (simp only: of_int_abs[symmetric] of_int_less_1_iff)
  then show ?thesis by simp
qed

text \<open>
  A concrete rounding is checked, not searched: given the binade \<open>k\<close> of \<open>x\<close> and the
  integer significand \<open>n\<close> nearest to \<open>x / 2^(k-52)\<close>, the rounded value is \<open>n * 2^(k-52)\<close>.
\<close>

lemma rnd_cert:
  assumes "0 < x" and "2 powi k \<le> x" and "x < 2 powi (k + 1)" and "- 1022 \<le> k"
    and "\<bar>x * 2 powi (52 - k) - of_int n\<bar> < 1/2"
  shows "rnd x = of_int n * 2 powi (k - 52)"
proof -
  have il: "ilog2 x = k" using assms(1-3) by (rule ilog2_unique)
  have e: "max (ilog2 x - 52) (- 1074) = k - 52" using assms(4) by (simp add: il)
  have "x / 2 powi (k - 52) = x * 2 powi (52 - k)"
    using power_int_minus_divide[of "2::rat" "k - 52"] by simp
  then have "rne (x / 2 powi (k - 52)) = n" using assms(5) by (simp add: rne_unique)
  then show ?thesis by (simp add: rnd_pos_eq[OF assms(1)] e)
qed

text \<open>Integers of magnitude below \<open>2^53\<close> are floats.\<close>

lemma rnd_of_int_pos:
  assumes "0 < n" and "n < 2 ^ 53"
  shows "rnd (of_int n) = of_int n"
proof -
  let ?x = "of_int n :: rat"
  have xp: "0 < ?x" using assms(1) by simp
  define k where "k = ilog2 ?x"
  have b: "2 powi k \<le> ?x" "?x < 2 powi (k + 1)" using ilog2_bounds[OF xp] by (simp_all add: k_def)
  have "(2::rat) powi 0 \<le> ?x" using assms(1) by simp
  then have "(2::rat) powi 0 < 2 powi (k + 1)" using b(2) by (rule le_less_trans)
  then have k0: "0 \<le> k" using pow2_less_imp[of 0 "k + 1"] by simp
  have "?x < of_int (2 ^ 53)" using assms(2) by (simp only: of_int_less_iff)
  then have "?x < 2 powi 53" by simp
  with b(1) have "(2::rat) powi k < 2 powi 53" by (rule le_less_trans)
  then have k52: "k \<le> 52" using pow2_less_imp[of k 53] by simp
  have e: "max (ilog2 ?x - 52) (- 1074) = k - 52" using k0 by (simp add: k_def)
  have "(2::rat) powi (k - 52) * 2 powi (52 - k) = 2 powi 0"
    using power_int_add[of "2::rat" "k - 52" "52 - k"] by simp
  then have inv: "(2::rat) powi (k - 52) * 2 ^ nat (52 - k) = 1"
    using k52 by (simp add: power_int_def)
  then have "?x / 2 powi (k - 52) = ?x * 2 ^ nat (52 - k)"
    by (simp add: field_simps)
  also have "\<dots> = of_int (n * 2 ^ nat (52 - k))" by simp
  finally have "rne (?x / 2 powi (k - 52)) = n * 2 ^ nat (52 - k)" by (simp only: rne_of_int)
  then have "rnd ?x = of_int (n * 2 ^ nat (52 - k)) * 2 powi (k - 52)"
    by (simp add: rnd_pos_eq[OF xp] e)
  also have "\<dots> = ?x * (2 powi (k - 52) * 2 ^ nat (52 - k))" by simp
  finally show ?thesis by (simp only: inv mult_1_right)
qed

lemma rnd_of_int: "\<bar>n\<bar> < 2 ^ 53 \<Longrightarrow> rnd (of_int n) = of_int n"
proof -
  assume a: "\<bar>n\<bar> < 2 ^ 53"
  consider "n = 0" | "0 < n" | "n < 0" by linarith
  then show ?thesis
  proof cases
    case 1
    then show ?thesis by (simp add: rnd_0)
  next
    case 2
    then show ?thesis using a by (simp add: rnd_of_int_pos)
  next
    case 3
    then have "rnd (of_int (- n)) = of_int (- n)" using a by (intro rnd_of_int_pos) auto
    then show ?thesis by (simp add: rnd_minus)
  qed
qed

lemma rnd_numeral: "numeral w < (2::int) ^ 53 \<Longrightarrow> rnd (numeral w) = numeral w"
  using rnd_of_int[of "numeral w"] by simp

lemma rnd_neg_numeral: "numeral w < (2::int) ^ 53 \<Longrightarrow> rnd (- numeral w) = - numeral w"
  using rnd_of_int[of "- numeral w"] by simp

lemma rnd_1: "rnd 1 = 1"
  using rnd_of_int[of 1] by simp

lemma rnd_half: "rnd (1/2) = 1/2"
  using rnd_cert[of "1/2" "-1" "2 ^ 52"] by simp

lemma rnd_neg_half: "rnd (- (1/2)) = - (1/2)"
  using rnd_minus[of "1/2"] by (simp add: rnd_half)


lemma rne_tie: "y = of_int m + 1/2 \<Longrightarrow> rne y = (if even m then m else m + 1)"
proof -
  assume y: "y = of_int m + 1/2"
  have "\<lfloor>y\<rfloor> = m" unfolding y by (simp add: floor_unique)
  then show ?thesis by (simp add: rne_def Let_def y)
qed

lemma rnd_cert_tie:
  assumes "0 < x" and "2 powi k \<le> x" and "x < 2 powi (k + 1)" and "- 1022 \<le> k"
    and "x * 2 powi (52 - k) = of_int m + 1/2"
  shows "rnd x = of_int (if even m then m else m + 1) * 2 powi (k - 52)"
proof -
  have il: "ilog2 x = k" using assms(1-3) by (rule ilog2_unique)
  have e: "max (ilog2 x - 52) (- 1074) = k - 52" using assms(4) by (simp add: il)
  have "x / 2 powi (k - 52) = x * 2 powi (52 - k)"
    using power_int_minus_divide[of "2::rat" "k - 52"] by simp
  then have "rne (x / 2 powi (k - 52)) = (if even m then m else m + 1)"
    using assms(5) by (simp only: rne_tie)
  then show ?thesis by (simp only: rnd_pos_eq[OF assms(1)] e)
qed

section \<open>Tip rotation\<close>

lemma pool_length: "length JITO_TIP_ACCOUNTS = 8"
  by (simp add: JITO_TIP_ACCOUNTS_def)

lemma pool_distinct: "distinct JITO_TIP_ACCOUNTS"
  by (simp add: JITO_TIP_ACCOUNTS_def)

lemma pool_nth_eq:
  "i < 8 \<Longrightarrow> j < 8 \<Longrightarrow> (JITO_TIP_ACCOUNTS ! i = JITO_TIP_ACCOUNTS ! j) = (i = j)"
  using pool_distinct by (simp add: nth_eq_iff_index_eq pool_length)

lemma tip_calls_from:
  "jito_tip_account_index eng < 8 \<Longrightarrow>
   tip_calls n eng =
     Inr (map (\<lambda>k. JITO_TIP_ACCOUNTS ! ((jito_tip_account_index eng + k) mod 8)) [0..<n],
          eng\<lparr>jito_tip_account_index := (jito_tip_account_index eng + n) mod 8\<rparr>)"
proof (induction n arbitrary: eng)
  case 0
  then show ?case by simp
next
  case (Suc n)
  let ?i = "jito_tip_account_index eng"
  let ?eng' = "eng\<lparr>jito_tip_account_index := (?i + 1) mod 8\<rparr>"
  have step: "get_jito_tip_account eng = Inr (JITO_TIP_ACCOUNTS ! ?i, ?eng')"
    using Suc.prems by (simp add: get_jito_tip_account_def pool_length)
  have lt: "jito_tip_account_index ?eng' < 8" by simp
  have shift: "map (\<lambda>k. JITO_TIP_ACCOUNTS ! ((?i + k) mod 8)) [0..<Suc n]
      = JITO_TIP_ACCOUNTS ! ?i # map (\<lambda>k. JITO_TIP_ACCOUNTS ! (((?i + 1) mod 8 + k) mod 8)) [0..<n]"
    using Suc.prems by (simp add: upt_conv_Cons map_Suc_upt[symmetric] mod_simps del: upt_Suc)
  have "tip_calls (Suc n) eng =
      Inr (JITO_TIP_ACCOUNTS ! ?i # map (\<lambda>k. JITO_TIP_ACCOUNTS ! (((?i + 1) mod 8 + k) mod 8)) [0..<n],
           eng\<lparr>jito_tip_account_index := (?i + Suc n) mod 8\<rparr>)"
    using Suc.IH[OF lt] by (simp add: step mod_simps)
  then show ?case by (simp only: shift)
qed

lemma cyclic_count_step:
  "j < 8 \<Longrightarrow> Suc n div 8 + (if j < Suc n mod 8 then 1 else 0)
     = n div 8 + (if j < n mod 8 then 1 else 0) + (if n mod 8 = j then 1 else (0::nat))"
proof -
  assume j: "j < 8"
  have m: "n mod 8 < 8" by simp
  show ?thesis
  proof (cases "n mod 8 = 7")
    case True
    then have "Suc n mod 8 = 0" "Suc n div 8 = Suc (n div 8)"
      by (simp_all add: mod_Suc div_Suc)
    then show ?thesis using True j by auto
  next
    case False
    then have "Suc n mod 8 = Suc (n mod 8)" "Suc n div 8 = n div 8"
      using m by (simp_all add: mod_Suc div_Suc)
    then show ?thesis using j by auto
  qed
qed

lemma cyclic_count:
  "j < 8 \<Longrightarrow> count_list (map (\<lambda>k. JITO_TIP_ACCOUNTS ! (k mod 8)) [0..<n]) (JITO_TIP_ACCOUNTS ! j)
     = n div 8 + (if j < n mod 8 then 1 else 0)"
proof (induction n)
  case 0
  then show ?case by simp
next
  case (Suc n)
  have "count_list (map (\<lambda>k. JITO_TIP_ACCOUNTS ! (k mod 8)) [0..<Suc n]) (JITO_TIP_ACCOUNTS ! j)
       = n div 8 + (if j < n mod 8 then 1 else 0) + (if n mod 8 = j then 1 else 0)"
    using Suc by (simp add: pool_nth_eq)
  then show ?case using cyclic_count_step[OF Suc.prems, of n] by simp
qed

text \<open>
  C6. From a freshly initialised engine, with or without a logger, \<open>n\<close> sequential calls of the tip rotation
  succeed; the \<open>k\<close>-th call (counted from 0) returns pool entry \<open>k mod 8\<close>; the index
  stored afterwards is \<open>n mod 8\<close>, hence within \<open>0..7\<close>; and each of the eight pool
  entries, which are pairwise distinct, is returned \<open>n div 8\<close> times, plus once more
  exactly for the first \<open>n mod 8\<close> entries.
\<close>

theorem tip_rotation_round_robin:
  "\<exists>accts eng'.
     tip_calls n (init_engine cfg lg) = Inr (accts, eng')
     \<and> length accts = n
     \<and> (\<forall>k<n. accts ! k = JITO_TIP_ACCOUNTS ! (k mod 8))
     \<and> jito_tip_account_index eng' = n mod 8
     \<and> jito_tip_account_index eng' < 8
     \<and> length JITO_TIP_ACCOUNTS = 8 \<and> distinct JITO_TIP_ACCOUNTS
     \<and> (\<forall>j<8. count_list accts (JITO_TIP_ACCOUNTS ! j) = n div 8 + (if j < n mod 8 then 1 else 0))
     \<and> (\<forall>j<8. n div 8 \<le> count_list accts (JITO_TIP_ACCOUNTS ! j)
              \<and> count_list accts (JITO_TIP_ACCOUNTS ! j) \<le> n div 8 + 1)"
proof -
  let ?accts = "map (\<lambda>k. JITO_TIP_ACCOUNTS ! (k mod 8)) [0..<n]"
  let ?eng = "(init_engine cfg lg)\<lparr>jito_tip_account_index := n mod 8\<rparr>"
  have i0: "jito_tip_account_index (init_engine cfg lg) = 0" by (simp add: init_engine_def)
  have run: "tip_calls n (init_engine cfg lg) = Inr (?accts, ?eng)"
    using tip_calls_from[of "init_engine cfg lg" n] by (simp add: i0)
  have cnt: "\<forall>j<8. count_list ?accts (JITO_TIP_ACCOUNTS ! j) = n div 8 + (if j < n mod 8 then 1 else 0)"
    by (simp add: cyclic_count)
  have "length ?accts = n" by simp
  moreover have "\<forall>k<n. ?accts ! k = JITO_TIP_ACCOUNTS ! (k mod 8)" by simp
  moreover have "jito_tip_account_index ?eng = n mod 8" "jito_tip_account_index ?eng < 8" by simp_all
  moreover have "\<forall>j<8. n div 8 \<le> count_list ?accts (JITO_TIP_ACCOUNTS ! j)
              \<and> count_list ?accts (JITO_TIP_ACCOUNTS ! j) \<le> n div 8 + 1"
    using cnt by simp
  ultimately show ?thesis using run cnt pool_length pool_distinct by blast
qed

text \<open>
  Ten calls on a fresh engine: the tenth returns the second pool entry, the index ends
  at 2, the second entry was returned twice and the sixth once.
\<close>

theorem tip_rotation_round_robin_witness:
  "\<exists>accts eng'.
     tip_calls 10 (init_engine \<lparr>cfg_network = ''solana'', cfg_use_jito = True, jito_tip_sol = 1 / 100\<rparr>
                     False)
       = Inr (accts, eng')
     \<and> accts ! 9 = ''HFqU5x63VTqvQss8hp11i4wVV8bD44PvwucfZ2bU7gRe''
     \<and> jito_tip_account_index eng' = 2
     \<and> count_list accts (JITO_TIP_ACCOUNTS ! 1) = 2
     \<and> count_list accts (JITO_TIP_ACCOUNTS ! 5) = 1"
proof -
  obtain accts eng' where
    r: "tip_calls 10 (init_engine \<lparr>cfg_network = ''solana'', cfg_use_jito = True, jito_tip_sol = 1 / 100\<rparr>
                        False)
          = Inr (accts, eng')"
    and k: "\<forall>k<10. accts ! k = JITO_TIP_ACCOUNTS ! (k mod 8)"
    and i: "jito_tip_account_index eng' = 10 mod 8"
    and c: "\<forall>j<8. count_list accts (JITO_TIP_ACCOUNTS ! j) = 10 div 8 + (if j < 10 mod 8 then 1 else 0)"
    using tip_rotation_round_robin[of 10 "\<lparr>cfg_network = ''solana'', cfg_use_jito = True, jito_tip_sol = 1 / 100\<rparr>" False]
    by blast
  have "accts ! 9 = JITO_TIP_ACCOUNTS ! 1" using k by simp
  then have a: "accts ! 9 = ''HFqU5x63VTqvQss8hp11i4wVV8bD44PvwucfZ2bU7gRe''"
    by (simp add: JITO_TIP_ACCOUNTS_def)
  have c1: "count_list accts (JITO_TIP_ACCOUNTS ! 1) = 2" using c by simp
  have c5: "count_list accts (JITO_TIP_ACCOUNTS ! 5) = 1" using c by simp
  show ?thesis using r a i c1 c5 by auto
qed


section \<open>Position monitor\<close>

lemma poll_position_entry: "entry_price (fst (poll_position cfg pos c)) = entry_price pos"
  by (simp add: poll_position_def Let_def split: sum.splits option.splits)

lemma poll_position_peak_le: "peak_price pos \<le> peak_price (fst (poll_position cfg pos c))"
  by (simp add: poll_position_def Let_def split: sum.splits option.splits)

lemma pnl_percent_of_ok: "entry_price pos \<noteq> 0 \<Longrightarrow> \<exists>pnl. pnl_percent_of pos cur = Inr pnl"
  by (simp add: pnl_percent_of_def truediv_def)

lemma poll_position_peak_max:
  "entry_price pos \<noteq> 0 \<Longrightarrow>
   peak_price (fst (poll_position cfg pos c)) = max (peak_price pos) (current_price_of pos c)"
  using pnl_percent_of_ok[of pos "current_price_of pos c"]
  by (auto simp add: poll_position_def Let_def max_def split: sum.splits option.splits)

lemma current_price_of_cong: "entry_price p = entry_price q \<Longrightarrow> current_price_of p c = current_price_of q c"
  by (simp add: current_price_of_def)

lemma monitor_position_unfold:
  "monitor_position cfg self pos (c # cs) =
     (if current_position self \<noteq> Some pos then (self, [])
      else (let pos' = fst (poll_position cfg pos c) in
            case snd (poll_position cfg pos c) of
              Exit why current_price pnl \<Rightarrow>
                (case simulate_sell (self\<lparr>current_position := Some pos'\<rparr>) current_price pnl why of
                   Inr self' \<Rightarrow> (self', [pos'])
                 | Inl e \<Rightarrow> (fst (monitor_position cfg (self\<lparr>current_position := Some pos'\<rparr>) pos' cs),
                             pos' # snd (monitor_position cfg (self\<lparr>current_position := Some pos'\<rparr>) pos' cs)))
            | other \<Rightarrow> (fst (monitor_position cfg (self\<lparr>current_position := Some pos'\<rparr>) pos' cs),
                         pos' # snd (monitor_position cfg (self\<lparr>current_position := Some pos'\<rparr>) pos' cs))))"
  by (cases "poll_position cfg pos c") (auto simp: Let_def split: poll_outcome.splits sum.splits)

declare monitor_position.simps(2) [simp del]

text \<open>The trace of a monitoring run is empty, or starts with the position after the first poll.\<close>

lemma monitor_position_trace:
  "snd (monitor_position cfg self pos (c # cs)) = [] \<or>
   (\<exists>self'' rest. snd (monitor_position cfg self pos (c # cs)) = fst (poll_position cfg pos c) # rest
      \<and> (rest = [] \<or> rest = snd (monitor_position cfg self'' (fst (poll_position cfg pos c)) cs)))"
  by (simp only: monitor_position_unfold Let_def) (auto split: poll_outcome.splits sum.splits)

lemma monitor_position_sorted:
  "sorted (map peak_price (pos # snd (monitor_position cfg self pos cs)))"
proof (induction cs arbitrary: self pos)
  case Nil
  then show ?case by simp
next
  case (Cons c cs)
  let ?p = "fst (poll_position cfg pos c)"
  from monitor_position_trace[of cfg self pos c cs]
  consider "snd (monitor_position cfg self pos (c # cs)) = []"
    | "snd (monitor_position cfg self pos (c # cs)) = [?p]"
    | self'' where "snd (monitor_position cfg self pos (c # cs)) = ?p # snd (monitor_position cfg self'' ?p cs)"
    by auto
  then show ?case
  proof cases
    case 1
    then show ?thesis by simp
  next
    case 2
    then show ?thesis using poll_position_peak_le[of pos cfg c] by simp
  next
    case 3
    have "sorted (map peak_price (?p # snd (monitor_position cfg self'' ?p cs)))" by (rule Cons.IH)
    then show ?thesis using poll_position_peak_le[of pos cfg c] 3 by auto
  qed
qed

lemma monitor_position_length: "length (snd (monitor_position cfg self pos cs)) \<le> length cs"
proof (induction cs arbitrary: self pos)
  case Nil
  then show ?case by simp
next
  case (Cons c cs)
  let ?p = "fst (poll_position cfg pos c)"
  from monitor_position_trace[of cfg self pos c cs]
  consider "snd (monitor_position cfg self pos (c # cs)) = []"
    | "snd (monitor_position cfg self pos (c # cs)) = [?p]"
    | self'' where "snd (monitor_position cfg self pos (c # cs)) = ?p # snd (monitor_position cfg self'' ?p cs)"
    by auto
  then show ?case
  proof cases
    case 1
    then show ?thesis by simp
  next
    case 2
    then show ?thesis by simp
  next
    case 3
    then show ?thesis using Cons.IH[of self'' ?p] by simp
  qed
qed

lemma monitor_position_peaks:
  "entry_price pos \<noteq> 0 \<Longrightarrow> i < length (snd (monitor_position cfg self pos cs)) \<Longrightarrow>
   peak_price ((pos # snd (monitor_position cfg self pos cs)) ! Suc i)
     = max (peak_price ((pos # snd (monitor_position cfg self pos cs)) ! i)) (current_price_of pos (cs ! i))"
proof (induction cs arbitrary: self pos i)
  case Nil
  then show ?case by simp
next
  case (Cons c cs)
  let ?p = "fst (poll_position cfg pos c)"
  have e: "entry_price ?p = entry_price pos" by (rule poll_position_entry)
  have e0: "entry_price ?p \<noteq> 0" using Cons.prems(1) e by simp
  have first: "peak_price ?p = max (peak_price pos) (current_price_of pos c)"
    using Cons.prems(1) by (rule poll_position_peak_max)
  from monitor_position_trace[of cfg self pos c cs]
  consider "snd (monitor_position cfg self pos (c # cs)) = []"
    | "snd (monitor_position cfg self pos (c # cs)) = [?p]"
    | self'' where "snd (monitor_position cfg self pos (c # cs)) = ?p # snd (monitor_position cfg self'' ?p cs)"
    by auto
  then show ?case
  proof cases
    case 1
    then show ?thesis using Cons.prems(2) by simp
  next
    case 2
    then show ?thesis using Cons.prems(2) first by simp
  next
    case 3
    show ?thesis
    proof (cases i)
      case 0
      then show ?thesis using 3 first by simp
    next
      case (Suc k)
      then have k: "k < length (snd (monitor_position cfg self'' ?p cs))" using Cons.prems(2) 3 by simp
      have "peak_price ((?p # snd (monitor_position cfg self'' ?p cs)) ! Suc k)
          = max (peak_price ((?p # snd (monitor_position cfg self'' ?p cs)) ! k)) (current_price_of ?p (cs ! k))"
        using e0 k by (rule Cons.IH)
      then show ?thesis using 3 Suc current_price_of_cong[OF e] by simp
    qed
  qed
qed


lemma demo_price_nonzero: "rnd (123 / 100000000) \<noteq> 0"
  using rnd_cert[of "123 / 100000000" "- 20" 5808510773929664] by simp

lemma simulate_buy_entry_nonzero:
  "current_position (simulate_buy self token_address amt) = Some pos \<Longrightarrow> entry_price pos \<noteq> 0"
  using demo_price_nonzero by (auto simp: simulate_buy_def)

text \<open>
  C3. Along a monitoring run, for any draws of the price, the peaks of the position
  (its initial peak, then the peak after each poll) are non-decreasing, so a later peak
  is never below an earlier one. For a position with a non-zero entry price, and so for
  every position that \<open>simulate_buy\<close> opens, the peak after each poll is the maximum of
  the peak before it and the price of that poll.
\<close>

theorem peak_price_monotone:
  "sorted (map peak_price (pos # snd (monitor_position cfg self pos cs)))
   \<and> length (snd (monitor_position cfg self pos cs)) \<le> length cs
   \<and> (entry_price pos \<noteq> 0 \<or> current_position (simulate_buy self0 token_address amt) = Some pos \<longrightarrow>
        (\<forall>i < length (snd (monitor_position cfg self pos cs)).
           peak_price ((pos # snd (monitor_position cfg self pos cs)) ! Suc i)
             = max (peak_price ((pos # snd (monitor_position cfg self pos cs)) ! i))
                   (current_price_of pos (cs ! i))))"
  using monitor_position_sorted[of pos cfg self cs] monitor_position_length[of cfg self pos cs]
    monitor_position_peaks[of pos _ cfg self cs] simulate_buy_entry_nonzero[of self0 token_address amt pos]
  by blast

lemma demo_poll_up: "poll_position demo_strategy (demo_position 1) 1 = (demo_position 2, Hold)"
  by (simp add: poll_position_def current_price_of_def pnl_percent_of_def exit_reason_def
      truediv_def fadd_def fsub_def fmul_def demo_position_def demo_strategy_def Let_def
      rnd_numeral rnd_1 rnd_0)

lemma demo_poll_down:
  "poll_position demo_strategy (demo_position 2) 0
     = (demo_position 2, Exit ''Trailing Stop (50.0% from peak)'' 1 0)"
  by (simp add: poll_position_def current_price_of_def pnl_percent_of_def exit_reason_def
      truediv_def fadd_def fsub_def fmul_def demo_position_def demo_strategy_def Let_def
      rnd_numeral rnd_1 rnd_0 rnd_half fmt_1f_def rne_def str_nat.simps digit_char_def)

lemma demo_run:
  "snd (monitor_position demo_strategy (demo_bot 1) (demo_position 1) [1, 0])
     = [demo_position 2, demo_position 2]"
  by (simp add: monitor_position.simps(2) demo_poll_up demo_poll_down demo_bot_def simulate_sell_def Let_def)

text \<open>
  A position entered at 1 whose price doubles and then falls back to 1: the peaks are
  1, 2, 2, and the second poll exits on the trailing stop.
\<close>

theorem peak_price_monotone_witness:
  "entry_price (demo_position 1) \<noteq> 0
   \<and> snd (monitor_position demo_strategy (demo_bot 1) (demo_position 1) [1, 0])
       = [demo_position 2, demo_position 2]
   \<and> current_price_of (demo_position 1) ([1, 0] ! 0) = 2
   \<and> current_price_of (demo_position 1) ([1, 0] ! 1) = 1
   \<and> map peak_price (demo_position 1 # snd (monitor_position demo_strategy (demo_bot 1) (demo_position 1) [1, 0]))
       = [1, 2, 2]
   \<and> sorted (map peak_price (demo_position 1 # snd (monitor_position demo_strategy (demo_bot 1) (demo_position 1) [1, 0])))
   \<and> peak_price ((demo_position 1 # snd (monitor_position demo_strategy (demo_bot 1) (demo_position 1) [1, 0])) ! Suc 1)
       = max (peak_price ((demo_position 1 # snd (monitor_position demo_strategy (demo_bot 1) (demo_position 1) [1, 0])) ! 1))
             (current_price_of (demo_position 1) ([1, 0] ! 1))"
proof -
  have e: "entry_price (demo_position 1) \<noteq> 0" by (simp add: demo_position_def)
  have c: "current_price_of (demo_position 1) ([1, 0] ! 0) = 2"
          "current_price_of (demo_position 1) ([1, 0] ! 1) = 1"
    by (simp_all add: current_price_of_def demo_position_def fmul_def fadd_def rnd_numeral rnd_1)
  have m: "map peak_price (demo_position 1 # snd (monitor_position demo_strategy (demo_bot 1) (demo_position 1) [1, 0]))
       = [1, 2, 2]"
    by (simp add: demo_run) (simp add: demo_position_def)
  from peak_price_monotone[of "demo_position 1" demo_strategy "demo_bot 1" "[1, 0]"] e
  have s: "sorted (map peak_price (demo_position 1 # snd (monitor_position demo_strategy (demo_bot 1) (demo_position 1) [1, 0])))"
    and p: "\<forall>i < length (snd (monitor_position demo_strategy (demo_bot 1) (demo_position 1) [1, 0])).
           peak_price ((demo_position 1 # snd (monitor_position demo_strategy (demo_bot 1) (demo_position 1) [1, 0])) ! Suc i)
             = max (peak_price ((demo_position 1 # snd (monitor_position demo_strategy (demo_bot 1) (demo_position 1) [1, 0])) ! i))
                   (current_price_of (demo_position 1) ([1, 0] ! i))"
    by blast+
  have "1 < length (snd (monitor_position demo_strategy (demo_bot 1) (demo_position 1) [1, 0]))"
    by (simp add: demo_run)
  with p have
    "peak_price ((demo_position 1 # snd (monitor_position demo_strategy (demo_bot 1) (demo_position 1) [1, 0])) ! Suc 1)
       = max (peak_price ((demo_position 1 # snd (monitor_position demo_strategy (demo_bot 1) (demo_position 1) [1, 0])) ! 1))
             (current_price_of (demo_position 1) ([1, 0] ! 1))"
    by blast
  with e c m s demo_run show ?thesis by blast
qed

text \<open>
  C2. For a poll whose PnL computes (the entry price is not zero), the outcome follows
  the fixed precedence: a PnL at or above the take-profit threshold exits with reason
  Take Profit, whatever the stop-loss and trailing conditions are; otherwise a PnL at or
  below minus the stop-loss threshold exits with reason Stop Loss, whatever the trailing
  condition is; the drop from the peak is computed and compared only when neither holds
  and the trailing stop is enabled; with the trailing stop disabled the position is held.
\<close>

theorem exit_precedence:
  assumes "pnl_percent_of pos (current_price_of pos c) = Inr pnl"
  shows "(take_profit cfg \<le> pnl \<longrightarrow>
            snd (poll_position cfg pos c)
              = Exit (''Take Profit ('' @ fmt_1f pnl @ ''%)'') (current_price_of pos c) pnl)
       \<and> (\<not> take_profit cfg \<le> pnl \<and> pnl \<le> - stop_loss cfg \<longrightarrow>
            snd (poll_position cfg pos c)
              = Exit (''Stop Loss ('' @ fmt_1f pnl @ ''%)'') (current_price_of pos c) pnl)
       \<and> (\<not> take_profit cfg \<le> pnl \<and> \<not> pnl \<le> - stop_loss cfg \<and> \<not> trailing_stop cfg \<longrightarrow>
            snd (poll_position cfg pos c) = Hold)
       \<and> (\<not> take_profit cfg \<le> pnl \<and> \<not> pnl \<le> - stop_loss cfg \<and> trailing_stop cfg \<longrightarrow>
            snd (poll_position cfg pos c)
              = (case truediv (fsub (max (peak_price pos) (current_price_of pos c)) (current_price_of pos c))
                              (max (peak_price pos) (current_price_of pos c)) of
                   Inl e \<Rightarrow> Fault e
                 | Inr q \<Rightarrow>
                     if trailing_distance cfg \<le> fmul q 100
                     then Exit (''Trailing Stop ('' @ fmt_1f (fmul q 100) @ ''% from peak)'')
                               (current_price_of pos c) pnl
                     else Hold))"
  using assms
  by (auto simp add: poll_position_def exit_reason_def Let_def max_def split: sum.splits)

lemma demo_pnl_up: "pnl_percent_of (demo_position 8) (current_price_of (demo_position 8) 3) = Inr 300"
  by (simp add: current_price_of_def pnl_percent_of_def truediv_def fadd_def fsub_def fmul_def
      demo_position_def rnd_numeral rnd_1)

lemma demo_pnl_down:
  "pnl_percent_of (demo_position 1) (current_price_of (demo_position 1) (- (1/2))) = Inr (- 50)"
  by (simp add: current_price_of_def pnl_percent_of_def truediv_def fadd_def fsub_def fmul_def
      demo_position_def rnd_numeral rnd_neg_numeral rnd_1 rnd_half rnd_neg_half)

text \<open>
  Two polls where two exit conditions hold at once. With entry 1 and an earlier peak of
  8, a price of 4 is a PnL of 300 percent and a drop of 50 percent from the peak: Take
  Profit is chosen. With entry and peak 1, a price of 1/2 is a PnL of minus 50 percent
  and a drop of 50 percent from the peak: Stop Loss is chosen.
\<close>

theorem exit_precedence_witness:
  "pnl_percent_of (demo_position 8) (current_price_of (demo_position 8) 3) = Inr 300
   \<and> take_profit demo_strategy \<le> 300
   \<and> trailing_stop demo_strategy
   \<and> truediv (fsub 8 4) 8 = Inr (1/2) \<and> trailing_distance demo_strategy \<le> fmul (1/2) 100
   \<and> snd (poll_position demo_strategy (demo_position 8) 3) = Exit ''Take Profit (300.0%)'' 4 300
   \<and> pnl_percent_of (demo_position 1) (current_price_of (demo_position 1) (- (1/2))) = Inr (- 50)
   \<and> - 50 \<le> - stop_loss demo_strategy
   \<and> truediv (fsub 1 (1/2)) 1 = Inr (1/2)
   \<and> snd (poll_position demo_strategy (demo_position 1) (- (1/2))) = Exit ''Stop Loss (-50.0%)'' (1/2) (- 50)"
proof -
  have tp: "take_profit demo_strategy \<le> 300" "trailing_stop demo_strategy"
    "\<not> take_profit demo_strategy \<le> - 50" "- 50 \<le> - stop_loss demo_strategy"
    by (simp_all add: demo_strategy_def)
  have dr: "truediv (fsub 8 4) 8 = Inr (1/2)" "trailing_distance demo_strategy \<le> fmul (1/2) 100"
    "truediv (fsub 1 (1/2)) 1 = Inr (1/2)"
    by (simp_all add: truediv_def fsub_def fmul_def demo_strategy_def rnd_numeral rnd_half)
  have cu: "current_price_of (demo_position 8) 3 = 4" "current_price_of (demo_position 1) (- (1/2)) = 1/2"
    by (simp_all add: current_price_of_def demo_position_def fmul_def fadd_def rnd_numeral rnd_half)
  have f: "fmt_1f 300 = ''300.0''" "fmt_1f (- 50) = ''-50.0''"
    by (simp_all add: fmt_1f_def rne_def str_nat.simps digit_char_def)
  from exit_precedence[OF demo_pnl_up, of demo_strategy] tp(1)
  have a: "snd (poll_position demo_strategy (demo_position 8) 3) = Exit ''Take Profit (300.0%)'' 4 300"
    by (simp add: cu f)
  from exit_precedence[OF demo_pnl_down, of demo_strategy] tp(3,4)
  have b: "snd (poll_position demo_strategy (demo_position 1) (- (1/2))) = Exit ''Stop Loss (-50.0%)'' (1/2) (- 50)"
    by (simp add: cu f)
  from demo_pnl_up demo_pnl_down tp dr a b show ?thesis by blast
qed

section \<open>SafetyFilters\<close>

lemma rnd_one_fifths: "rnd (1 / 5) = 3602879701896397 / 18014398509481984"
  using rnd_cert[of "1 / 5" "-3" 7205759403792794] by (simp)

lemma score_one_fifths: "fmul (rnd (1 / 5)) 100 = 20"
  using rnd_cert[of "90071992547409925 / 4503599627370496" "4" 5629499534213120] by (simp add: fmul_def rnd_one_fifths)

lemma rnd_two_fifths: "rnd (2 / 5) = 3602879701896397 / 9007199254740992"
  using rnd_cert[of "2 / 5" "-2" 7205759403792794] by (simp)

lemma score_two_fifths: "fmul (rnd (2 / 5)) 100 = 40"
  using rnd_cert[of "90071992547409925 / 2251799813685248" "5" 5629499534213120] by (simp add: fmul_def rnd_two_fifths)

lemma rnd_three_fifths: "rnd (3 / 5) = 5404319552844595 / 9007199254740992"
  using rnd_cert[of "3 / 5" "-1" 5404319552844595] by (simp)

lemma score_three_fifths: "fmul (rnd (3 / 5)) 100 = 60"
  using rnd_cert[of "135107988821114875 / 2251799813685248" "5" 8444249301319680] by (simp add: fmul_def rnd_three_fifths)

lemma rnd_four_fifths: "rnd (4 / 5) = 3602879701896397 / 4503599627370496"
  using rnd_cert[of "4 / 5" "-1" 7205759403792794] by (simp)

lemma score_four_fifths: "fmul (rnd (4 / 5)) 100 = 80"
  using rnd_cert[of "90071992547409925 / 1125899906842624" "6" 5629499534213120] by (simp add: fmul_def rnd_four_fifths)

lemma score_of_passed:
  assumes "0 \<le> p" and "p \<le> 5"
  shows "py_int (fmul (rnd (of_int p / 5)) 100) = 20 * p
       \<and> py_round (fmul (rnd (of_int p / 5)) 100) = 20 * p"
proof -
  from assms consider "p = 0" | "p = 1" | "p = 2" | "p = 3" | "p = 4" | "p = 5" by linarith
  then show ?thesis
  proof cases
    case 1
    then show ?thesis by (simp add: fmul_def rnd_0 py_int_def py_round_def rne_def)
  next
    case 2
    then show ?thesis by (simp add: score_one_fifths py_int_def py_round_def rne_def)
  next
    case 3
    then show ?thesis by (simp add: score_two_fifths py_int_def py_round_def rne_def)
  next
    case 4
    then show ?thesis by (simp add: score_three_fifths py_int_def py_round_def rne_def)
  next
    case 5
    then show ?thesis by (simp add: score_four_fifths py_int_def py_round_def rne_def)
  next
    case 6
    then show ?thesis by (simp add: fmul_def rnd_1 rnd_numeral py_int_def py_round_def rne_def)
  qed
qed

lemma tally_fst: "fst (tally ok why acc) = fst acc + (if ok then 1 else 0)"
  by (simp add: tally_def)

text \<open>The number of layers of a report that passed.\<close>

lemma analyze_token_passed_checks:
  "passed_checks (analyze_token repr cfg tok rug_reply age honeypot_reply) =
     (if passed (check_rugcheck repr cfg tok rug_reply) then 1 else 0)
   + (if passed (check_liquidity cfg tok) then 1 else 0)
   + (if passed (check_holders repr cfg tok) then 1 else 0)
   + (if passed (check_age repr cfg age) then 1 else 0)
   + (if passed (check_contract cfg tok honeypot_reply) then 1 else 0)"
  by (simp add: analyze_token_def Let_def tally_fst)

lemma analyze_token_fields:
  "total_checks (analyze_token repr cfg tok rug_reply age honeypot_reply) = 5"
  "overall_score (analyze_token repr cfg tok rug_reply age honeypot_reply)
     = py_int (fmul (rnd (of_int (passed_checks (analyze_token repr cfg tok rug_reply age honeypot_reply)) / 5)) 100)"
  "safe (analyze_token repr cfg tok rug_reply age honeypot_reply)
     = (min_safety_score cfg \<le> of_int (overall_score (analyze_token repr cfg tok rug_reply age honeypot_reply)))"
  by (simp_all add: analyze_token_def Let_def)

text \<open>
  C1. For every token snapshot, configuration and behaviour of the two oracles and the
  clock, the report of \<open>analyze_token\<close> has \<open>total_checks = 5\<close>; \<open>passed_checks\<close> is
  the number of layers that passed, between 0 and 5; the score, which the code computes
  as \<open>int(passed_checks / total_checks * 100)\<close> in floats, equals
  \<open>round(passed_checks / total_checks * 100)\<close> and is \<open>20 * passed_checks\<close>; and
  \<open>safe\<close> holds exactly when the score is at least the configured threshold.
\<close>

theorem safety_report_score:
  "total_checks (analyze_token repr cfg tok rug_reply age honeypot_reply) = 5
   \<and> 0 \<le> passed_checks (analyze_token repr cfg tok rug_reply age honeypot_reply)
   \<and> passed_checks (analyze_token repr cfg tok rug_reply age honeypot_reply) \<le> 5
   \<and> overall_score (analyze_token repr cfg tok rug_reply age honeypot_reply)
       = py_round (fmul (rnd (of_int (passed_checks (analyze_token repr cfg tok rug_reply age honeypot_reply))
                              / of_int (total_checks (analyze_token repr cfg tok rug_reply age honeypot_reply)))) 100)
   \<and> overall_score (analyze_token repr cfg tok rug_reply age honeypot_reply)
       = 20 * passed_checks (analyze_token repr cfg tok rug_reply age honeypot_reply)
   \<and> safe (analyze_token repr cfg tok rug_reply age honeypot_reply)
       = (min_safety_score cfg \<le> of_int (overall_score (analyze_token repr cfg tok rug_reply age honeypot_reply)))"
proof -
  let ?r = "analyze_token repr cfg tok rug_reply age honeypot_reply"
  have p: "0 \<le> passed_checks ?r" "passed_checks ?r \<le> 5"
    by (simp_all add: analyze_token_passed_checks)
  note s = score_of_passed[OF p]
  show ?thesis using p s by (simp add: analyze_token_fields)
qed

lemma demo_layers:
  "passed (check_rugcheck repr demo_safety_config demo_token (Status 200 (Some (PInt 7))))"
  "passed (check_liquidity demo_safety_config demo_token)"
  "passed (check_holders repr demo_safety_config demo_token)"
  "passed (check_age repr demo_safety_config (Some 0))"
  "passed (check_contract demo_safety_config demo_token Timeout)"
  "\<not> passed (check_rugcheck repr demo_safety_config demo_token (Status 200 (Some (PInt 3))))"
  "\<not> passed (check_age repr demo_safety_config (Some 9))"
  by (simp_all add: check_rugcheck_def check_liquidity_def check_holders_def check_age_def
      check_contract_def demo_safety_config_def demo_token_def dict_get_def Let_def)

text \<open>
  The scenario of the specification (liquidity 8000, 75 holders, top holder 45 percent,
  age 0, external score 7, threshold 70) passes five of five layers with score 100; the
  same token with external score 3 and age 9 passes three layers and, at 60, is not safe.
\<close>

theorem safety_report_score_witness:
  "passed_checks (analyze_token fmt_1f demo_safety_config demo_token (Status 200 (Some (PInt 7))) (Some 0) Timeout) = 5
   \<and> overall_score (analyze_token fmt_1f demo_safety_config demo_token (Status 200 (Some (PInt 7))) (Some 0) Timeout) = 100
   \<and> safe (analyze_token fmt_1f demo_safety_config demo_token (Status 200 (Some (PInt 7))) (Some 0) Timeout)
   \<and> passed_checks (analyze_token fmt_1f demo_safety_config demo_token (Status 200 (Some (PInt 3))) (Some 9) Timeout) = 3
   \<and> overall_score (analyze_token fmt_1f demo_safety_config demo_token (Status 200 (Some (PInt 3))) (Some 9) Timeout) = 60
   \<and> \<not> safe (analyze_token fmt_1f demo_safety_config demo_token (Status 200 (Some (PInt 3))) (Some 9) Timeout)"
proof -
  have t: "min_safety_score demo_safety_config = 70" by (simp add: demo_safety_config_def)
  have p1: "passed_checks (analyze_token fmt_1f demo_safety_config demo_token (Status 200 (Some (PInt 7))) (Some 0) Timeout) = 5"
    by (simp add: analyze_token_passed_checks demo_layers)
  have p2: "passed_checks (analyze_token fmt_1f demo_safety_config demo_token (Status 200 (Some (PInt 3))) (Some 9) Timeout) = 3"
    by (simp add: analyze_token_passed_checks demo_layers)
  let ?r1 = "analyze_token fmt_1f demo_safety_config demo_token (Status 200 (Some (PInt 7))) (Some 0) Timeout"
  let ?r2 = "analyze_token fmt_1f demo_safety_config demo_token (Status 200 (Some (PInt 3))) (Some 9) Timeout"
  from safety_report_score[of fmt_1f demo_safety_config demo_token "Status 200 (Some (PInt 7))" "Some 0" Timeout]
  have s1: "overall_score ?r1 = 20 * passed_checks ?r1"
    and f1: "safe ?r1 = (min_safety_score demo_safety_config \<le> of_int (overall_score ?r1))"
    by blast+
  from safety_report_score[of fmt_1f demo_safety_config demo_token "Status 200 (Some (PInt 3))" "Some 9" Timeout]
  have s2: "overall_score ?r2 = 20 * passed_checks ?r2"
    and f2: "safe ?r2 = (min_safety_score demo_safety_config \<le> of_int (overall_score ?r2))"
    by blast+
  have a: "overall_score ?r1 = 100" "safe ?r1"
    by (simp_all add: s1 f1 p1 t)
  have b: "overall_score ?r2 = 60" "\<not> safe ?r2"
    by (simp_all add: s2 f2 p2 t)
  from p1 p2 a b show ?thesis by blast
qed






section \<open>ExecutionEngine\<close>

lemma catch_none_Inr: "\<exists>r. fst (catch_none x) = Inr r"
  by (cases "fst x") (simp_all add: catch_none_def)

lemma catch_none_id: "fst x = Inr v \<Longrightarrow> catch_none x = x"
  by (simp add: catch_none_def)


text \<open>The only exception of a conversion to float is the overflow of an int.\<close>

lemma to_float_cases: "(\<exists>x. to_float amt = Inr x) \<or> to_float amt = Inl OverflowError"
  by (cases amt) (simp_all add: int_to_float_def)

lemma to_float_Inl: "to_float amt = Inl e \<Longrightarrow> e = OverflowError"
  using to_float_cases[of amt] by auto

lemma to_float_not_Inr: "(\<forall>x. to_float amt \<noteq> Inr x) = (to_float amt = Inl OverflowError)"
  using to_float_cases[of amt] by auto













lemma int_to_float_huge: "int_to_float (2 ^ 1024) = Inl OverflowError"
proof -
  have "rnd (2 ^ 1024) = of_int 4503599627370496 * 2 powi (1024 - 52)"
    by (rule rnd_cert) (simp_all add: power_int_add[symmetric])
  then have "rnd (2 ^ 1024) = 2 ^ 1024"
    by simp
  then show ?thesis by (simp add: int_to_float_def)
qed




lemma demo_huge_amount_overflows: "to_float demo_huge_amount = Inl OverflowError"
  unfolding demo_huge_amount_def to_float.simps by (rule int_to_float_huge)



section \<open>ModelTrainer\<close>

lemma find_optimal_threshold_eq:
  "find_optimal_threshold ws field =
     (if filter (\<lambda>v. 0 < v) (map (trade_field field) ws) = [] then 0
      else np_median (filter (\<lambda>v. 0 < v) (map (trade_field field) ws)))"
  by (simp add: find_optimal_threshold_def Let_def filter_map comp_def)

lemma filter_all_pos: "(\<forall>v \<in> set xs. 0 < v) \<Longrightarrow> filter (\<lambda>v. (0::rat) < v) xs = xs"
  by (induction xs) auto

lemma trade_field_names:
  "trade_field ''safety_score'' = safety_score"
  "trade_field ''lep_confidence'' = lep_confidence"
  "trade_field ''virality_score'' = trade_virality_score"
  by (simp_all add: trade_field_def fun_eq_iff)

text \<open>
  C7, as the code has it. Below ten records the analysis returns without saving, as it
  does when no trade of the history is a win. With ten records or more and at least one
  win it saves patterns whose threshold for each scored field is the median of the
  strictly positive values of that field among the winning trades, or 0 when no winning
  trade has a positive value. When every winning trade has a positive value in a field,
  this is the median of the field over the winning trades. The thresholds are a function
  of the history alone.
\<close>

theorem analyze_patterns_thresholds:
  "(length history < 10 \<longrightarrow> analyze_patterns mean history = None)
   \<and> (10 \<le> length history \<and> filter win history = [] \<longrightarrow> analyze_patterns mean history = None)
   \<and> (10 \<le> length history \<and> filter win history \<noteq> [] \<longrightarrow>
        (\<exists>p. analyze_patterns mean history = Some p
          \<and> total_trades p = length history
          \<and> n_wins p = length (filter win history)
          \<and> optimal_safety_score p
              = (if filter (\<lambda>v. 0 < v) (map safety_score (filter win history)) = [] then 0
                 else np_median (filter (\<lambda>v. 0 < v) (map safety_score (filter win history))))
          \<and> optimal_lep_confidence p
              = (if filter (\<lambda>v. 0 < v) (map lep_confidence (filter win history)) = [] then 0
                 else np_median (filter (\<lambda>v. 0 < v) (map lep_confidence (filter win history))))
          \<and> optimal_virality_score p
              = (if filter (\<lambda>v. 0 < v) (map trade_virality_score (filter win history)) = [] then 0
                 else np_median (filter (\<lambda>v. 0 < v) (map trade_virality_score (filter win history))))
          \<and> ((\<forall>t \<in> set (filter win history). 0 < safety_score t) \<longrightarrow>
                optimal_safety_score p = np_median (map safety_score (filter win history)))
          \<and> ((\<forall>t \<in> set (filter win history). 0 < lep_confidence t) \<longrightarrow>
                optimal_lep_confidence p = np_median (map lep_confidence (filter win history)))
          \<and> ((\<forall>t \<in> set (filter win history). 0 < trade_virality_score t) \<longrightarrow>
                optimal_virality_score p = np_median (map trade_virality_score (filter win history)))))"
proof -
  have pos: "\<And>f. (\<forall>t \<in> set (filter win history). 0 < f t) \<Longrightarrow> filter win history \<noteq> [] \<Longrightarrow>
      (if filter (\<lambda>v. 0 < v) (map f (filter win history)) = [] then 0
       else np_median (filter (\<lambda>v. 0 < v) (map f (filter win history))))
      = np_median (map f (filter win history))"
  proof -
    fix f :: "trade_record \<Rightarrow> rat"
    assume a: "\<forall>t \<in> set (filter win history). 0 < f t" and n: "filter win history \<noteq> []"
    have "\<forall>v \<in> set (map f (filter win history)). 0 < v" using a by auto
    then have "filter (\<lambda>v. 0 < v) (map f (filter win history)) = map f (filter win history)"
      by (rule filter_all_pos)
    then show "(if filter (\<lambda>v. 0 < v) (map f (filter win history)) = [] then 0
       else np_median (filter (\<lambda>v. 0 < v) (map f (filter win history))))
      = np_median (map f (filter win history))"
      using n by simp
  qed
  show ?thesis
    by (auto simp add: analyze_patterns_def Let_def find_optimal_threshold_eq trade_field_names pos)
qed

lemma demo_wins:
  "filter win demo_history = [demo_trade 10 70, demo_trade 20 90, demo_trade 30 80]"
  "filter win demo_history_zero = [demo_trade 10 0, demo_trade 20 80]"
  "length demo_history = 10" "length demo_history_zero = 10"
  by (simp_all add: demo_history_def demo_history_zero_def demo_trade_def)

lemma demo_medians:
  "np_median [70, 90, 80] = 80"
  "np_median [0, 80] = 40"
  "np_median [80] = 80"
  by (simp_all add: np_median_def Let_def fadd_def rnd_numeral)

text \<open>
  Ten trades with three wins whose safety scores are 70, 90 and 80: the learned safety
  threshold is their median 80. Nine of these trades are too few for the analysis.
\<close>

theorem analyze_patterns_thresholds_witness:
  "10 \<le> length demo_history \<and> filter win demo_history \<noteq> []
   \<and> (\<exists>p. analyze_patterns demo_mean demo_history = Some p \<and> optimal_safety_score p = 80)
   \<and> length (tl demo_history) < 10
   \<and> analyze_patterns demo_mean (tl demo_history) = None"
proof -
  have l: "10 \<le> length demo_history" "filter win demo_history \<noteq> []" "length (tl demo_history) < 10"
    by (simp_all add: demo_wins)
  have pos: "\<forall>t \<in> set (filter win demo_history). 0 < safety_score t"
    by (simp add: demo_wins) (simp add: demo_trade_def)
  have m: "np_median (map safety_score (filter win demo_history)) = 80"
    by (simp add: demo_wins) (simp add: demo_trade_def demo_medians)
  from analyze_patterns_thresholds[of demo_history demo_mean] l(1,2)
  obtain p where p: "analyze_patterns demo_mean demo_history = Some p"
    and q: "(\<forall>t \<in> set (filter win demo_history). 0 < safety_score t) \<longrightarrow>
              optimal_safety_score p = np_median (map safety_score (filter win demo_history))"
    by blast
  from q pos m have "optimal_safety_score p = 80" by simp
  with p have a: "\<exists>p. analyze_patterns demo_mean demo_history = Some p \<and> optimal_safety_score p = 80"
    by blast
  from analyze_patterns_thresholds[of "tl demo_history" demo_mean] l(3)
  have b: "analyze_patterns demo_mean (tl demo_history) = None" by blast
  from l a b show ?thesis by blast
qed

text \<open>
  The claim as stated fails on a history whose two winning trades have safety scores 0
  and 80: the median of the field over the winning trades is 40, but the learned
  threshold is 80, because the code leaves the value 0 out before taking the median.
\<close>

theorem analyze_patterns_counterexample:
  "10 \<le> length demo_history_zero
   \<and> map safety_score (filter win demo_history_zero) = [0, 80]
   \<and> np_median (map safety_score (filter win demo_history_zero)) = 40
   \<and> (\<exists>p. analyze_patterns demo_mean demo_history_zero = Some p \<and> optimal_safety_score p = 80)"
proof -
  have v: "map safety_score (filter win demo_history_zero) = [0, 80]"
    by (simp add: demo_wins) (simp add: demo_trade_def)
  have "find_optimal_threshold (filter win demo_history_zero) ''safety_score'' = 80"
    by (simp add: find_optimal_threshold_eq trade_field_names v demo_medians)
  then have e: "\<exists>p. analyze_patterns demo_mean demo_history_zero = Some p \<and> optimal_safety_score p = 80"
    by (simp add: analyze_patterns_def Let_def demo_wins)
  have l: "10 \<le> length demo_history_zero" by (simp add: demo_wins)
  have m: "np_median (map safety_score (filter win demo_history_zero)) = 40"
    by (simp only: v demo_medians)
  from l v m e show ?thesis by blast
qed

section \<open>Float evaluations used by the predictors\<close>

text \<open>
  The decimal literals of the two predictors, each checked against its binade and
  significand.
\<close>

lemma lit_0_25: "rnd (1 / 4) = 1 / 4"
  using rnd_cert[of "1 / 4" "-2" 4503599627370496] by simp

lemma lit_0_2: "rnd (1 / 5) = 3602879701896397 / 18014398509481984"
  using rnd_cert[of "1 / 5" "-3" 7205759403792794] by simp

lemma lit_0_15: "rnd (3 / 20) = 5404319552844595 / 36028797018963968"
  using rnd_cert[of "3 / 20" "-3" 5404319552844595] by simp

lemma lit_0_1: "rnd (1 / 10) = 3602879701896397 / 36028797018963968"
  using rnd_cert[of "1 / 10" "-4" 7205759403792794] by simp

lemma lit_0_8: "rnd (4 / 5) = 3602879701896397 / 4503599627370496"
  using rnd_cert[of "4 / 5" "-1" 7205759403792794] by simp

lemma lit_0_4: "rnd (2 / 5) = 3602879701896397 / 9007199254740992"
  using rnd_cert[of "2 / 5" "-2" 7205759403792794] by simp

lemma lit_0_7: "rnd (7 / 10) = 3152519739159347 / 4503599627370496"
  using rnd_cert[of "7 / 10" "-1" 6305039478318694] by simp

lemma lit_0_3: "rnd (3 / 10) = 5404319552844595 / 18014398509481984"
  using rnd_cert[of "3 / 10" "-2" 5404319552844595] by simp

lemma lit_0_6: "rnd (3 / 5) = 5404319552844595 / 9007199254740992"
  using rnd_cert[of "3 / 5" "-1" 5404319552844595] by simp

lemma lit_0_79: "rnd (79 / 100) = 889460926405673 / 1125899906842624"
  using rnd_cert[of "79 / 100" "-1" 7115687411245384] by simp

lemma lit_0_77: "rnd (77 / 100) = 1733885856537641 / 2251799813685248"
  using rnd_cert[of "77 / 100" "-1" 6935543426150564] by simp

lemmas float_lits =
  lit_0_25 lit_0_2 lit_0_15 lit_0_1 lit_0_8 lit_0_4 lit_0_7 lit_0_3 lit_0_6

text \<open>The scores that the analysers build by adding 0.5 once or twice to 0.0.\<close>

lemma score_half: "fadd 0 (1 / 2) = 1 / 2"
  using rnd_cert[of "1 / 2" "-1" 4503599627370496] by (simp add: fadd_def)

lemma score_one: "fadd (1 / 2) (1 / 2) = 1"
  using rnd_cert[of "1" "0" 4503599627370496] by (simp add: fadd_def)

text \<open>
  The products and partial sums of the weighted sums evaluated below: both tables with
  all sub-scores 1 and all sub-scores 0, the LEP scenario, and the Cascade maxima.
\<close>

lemma lep_ones_term1: "fmul 1 (1 / 4) = 1 / 4"
  using rnd_cert[of "1 / 4" "-2" 4503599627370496] by (simp add: fmul_def)

lemma lep_ones_sum1: "fadd 0 (1 / 4) = 1 / 4"
  using rnd_cert[of "1 / 4" "-2" 4503599627370496] by (simp add: fadd_def)

lemma lep_ones_sum2: "fadd (1 / 4) (1 / 4) = 1 / 2"
  using rnd_cert[of "1 / 2" "-1" 4503599627370496] by (simp add: fadd_def)

lemma lep_ones_term3: "fmul 1 (3602879701896397 / 18014398509481984) = 3602879701896397 / 18014398509481984"
  using rnd_cert[of "3602879701896397 / 18014398509481984" "-3" 7205759403792794] by (simp add: fmul_def)

lemma lep_ones_sum3: "fadd (1 / 2) (3602879701896397 / 18014398509481984) = 3152519739159347 / 4503599627370496"
  using rnd_cert_tie[of "12610078956637389 / 18014398509481984" "-1" 6305039478318694] by (simp add: fadd_def)

lemma lep_ones_term4: "fmul 1 (5404319552844595 / 36028797018963968) = 5404319552844595 / 36028797018963968"
  using rnd_cert[of "5404319552844595 / 36028797018963968" "-3" 5404319552844595] by (simp add: fmul_def)

lemma lep_ones_sum4: "fadd (3152519739159347 / 4503599627370496) (5404319552844595 / 36028797018963968) = 7656119366529843 / 9007199254740992"
  using rnd_cert[of "30624477466119371 / 36028797018963968" "-1" 7656119366529843] by (simp add: fadd_def)

lemma lep_ones_sum5: "fadd (7656119366529843 / 9007199254740992) (5404319552844595 / 36028797018963968) = 1"
  using rnd_cert[of "36028797018963967 / 36028797018963968" "-1" 9007199254740992] by (simp add: fadd_def)

lemma cas_ones_sum2: "fadd (1 / 4) (3602879701896397 / 18014398509481984) = 8106479329266893 / 18014398509481984"
  using rnd_cert[of "8106479329266893 / 18014398509481984" "-2" 8106479329266893] by (simp add: fadd_def)

lemma cas_ones_sum3: "fadd (8106479329266893 / 18014398509481984) (3602879701896397 / 18014398509481984) = 5854679515581645 / 9007199254740992"
  using rnd_cert[of "5854679515581645 / 9007199254740992" "-1" 5854679515581645] by (simp add: fadd_def)

lemma cas_ones_sum4: "fadd (5854679515581645 / 9007199254740992) (1 / 4) = 8106479329266893 / 9007199254740992"
  using rnd_cert[of "8106479329266893 / 9007199254740992" "-1" 8106479329266893] by (simp add: fadd_def)

lemma cas_ones_term5: "fmul 1 (3602879701896397 / 36028797018963968) = 3602879701896397 / 36028797018963968"
  using rnd_cert[of "3602879701896397 / 36028797018963968" "-4" 7205759403792794] by (simp add: fmul_def)

lemma cas_ones_sum5: "fadd (8106479329266893 / 9007199254740992) (3602879701896397 / 36028797018963968) = 1"
  using rnd_cert[of "36028797018963969 / 36028797018963968" "0" 4503599627370496] by (simp add: fadd_def)

lemma lep_zeros_term1: "fmul 0 (1 / 4) = 0"
  by (simp add: fmul_def rnd_0)

lemma lep_zeros_sum1: "fadd 0 0 = 0"
  by (simp add: fadd_def rnd_0)

lemma lep_zeros_term3: "fmul 0 (3602879701896397 / 18014398509481984) = 0"
  by (simp add: fmul_def rnd_0)

lemma lep_zeros_term4: "fmul 0 (5404319552844595 / 36028797018963968) = 0"
  by (simp add: fmul_def rnd_0)

lemma cas_zeros_term5: "fmul 0 (3602879701896397 / 36028797018963968) = 0"
  by (simp add: fmul_def rnd_0)

lemma lep_scn_term1: "fmul (1 / 2) (1 / 4) = 1 / 8"
  using rnd_cert[of "1 / 8" "-3" 4503599627370496] by (simp add: fmul_def)

lemma lep_scn_sum1: "fadd 0 (1 / 8) = 1 / 8"
  using rnd_cert[of "1 / 8" "-3" 4503599627370496] by (simp add: fadd_def)

lemma lep_scn_sum2: "fadd (1 / 8) (1 / 4) = 3 / 8"
  using rnd_cert[of "3 / 8" "-2" 6755399441055744] by (simp add: fadd_def)

lemma lep_scn_sum3: "fadd (3 / 8) (3602879701896397 / 18014398509481984) = 2589569785738035 / 4503599627370496"
  using rnd_cert_tie[of "10358279142952141 / 18014398509481984" "-1" 5179139571476070] by (simp add: fadd_def)

lemma lep_scn_term4: "fmul (3602879701896397 / 4503599627370496) (5404319552844595 / 36028797018963968) = 1080863910568919 / 9007199254740992"
  using rnd_cert[of "19471113219505603967277331424215 / 162259276829213363391578010288128" "-4" 8646911284551352] by (simp add: fmul_def)

lemma lep_scn_sum4: "fadd (2589569785738035 / 4503599627370496) (1080863910568919 / 9007199254740992) = 6260003482044989 / 9007199254740992"
  using rnd_cert[of "6260003482044989 / 9007199254740992" "-1" 6260003482044989] by (simp add: fadd_def)

lemma lep_scn_term5: "fmul (1 / 2) (5404319552844595 / 36028797018963968) = 5404319552844595 / 72057594037927936"
  using rnd_cert[of "5404319552844595 / 72057594037927936" "-4" 5404319552844595] by (simp add: fmul_def)

lemma lep_scn_sum5: "fadd (6260003482044989 / 9007199254740992) (5404319552844595 / 72057594037927936) = 6935543426150563 / 9007199254740992"
  using rnd_cert[of "55484347409204507 / 72057594037927936" "-1" 6935543426150563] by (simp add: fadd_def)

lemma cas_max_term1: "fmul (3602879701896397 / 4503599627370496) (1 / 4) = 3602879701896397 / 18014398509481984"
  using rnd_cert[of "3602879701896397 / 18014398509481984" "-3" 7205759403792794] by (simp add: fmul_def)

lemma cas_max_sum1: "fadd 0 (3602879701896397 / 18014398509481984) = 3602879701896397 / 18014398509481984"
  using rnd_cert[of "3602879701896397 / 18014398509481984" "-3" 7205759403792794] by (simp add: fadd_def)

lemma cas_max_sum2: "fadd (3602879701896397 / 18014398509481984) (3602879701896397 / 18014398509481984) = 3602879701896397 / 9007199254740992"
  using rnd_cert[of "3602879701896397 / 9007199254740992" "-2" 7205759403792794] by (simp add: fadd_def)

lemma cas_max_term3: "fmul (3152519739159347 / 4503599627370496) (3602879701896397 / 18014398509481984) = 5044031582654955 / 36028797018963968"
  using rnd_cert[of "11358149378044935347338468172759 / 81129638414606681695789005144064" "-3" 5044031582654955] by (simp add: fmul_def)

lemma cas_max_sum3: "fadd (3602879701896397 / 9007199254740992) (5044031582654955 / 36028797018963968) = 607985949695017 / 1125899906842624"
  using rnd_cert[of "19455550390240543 / 36028797018963968" "-1" 4863887597560136] by (simp add: fadd_def)

lemma cas_max_sum4: "fadd (607985949695017 / 1125899906842624) (3602879701896397 / 18014398509481984) = 3332663724254167 / 4503599627370496"
  using rnd_cert_tie[of "13330654897016669 / 18014398509481984" "-1" 6665327448508334] by (simp add: fadd_def)

lemma cas_max_term5: "fmul (1 / 2) (3602879701896397 / 36028797018963968) = 3602879701896397 / 72057594037927936"
  using rnd_cert[of "3602879701896397 / 72057594037927936" "-5" 7205759403792794] by (simp add: fmul_def)

lemma cas_max_sum5: "fadd (3332663724254167 / 4503599627370496) (3602879701896397 / 72057594037927936) = 889460926405673 / 1125899906842624"
  using rnd_cert[of "56925499289963069 / 72057594037927936" "-1" 7115687411245384] by (simp add: fadd_def)

lemmas float_evals =
  lep_ones_term1 lep_ones_sum1 lep_ones_sum2 lep_ones_term3 lep_ones_sum3 lep_ones_term4
  lep_ones_sum4 lep_ones_sum5 cas_ones_sum2 cas_ones_sum3 cas_ones_sum4 cas_ones_term5 cas_ones_sum5
  lep_zeros_term1 lep_zeros_sum1 lep_zeros_term3 lep_zeros_term4 cas_zeros_term5 lep_scn_term1
  lep_scn_sum1 lep_scn_sum2 lep_scn_sum3 lep_scn_term4 lep_scn_sum4 lep_scn_term5 lep_scn_sum5
  cas_max_term1 cas_max_sum1 cas_max_sum2 cas_max_term3 cas_max_sum3 cas_max_sum4 cas_max_term5
  cas_max_sum5

text \<open>The hundredfold of the sums that become virality scores.\<close>

lemma pct_max: "fmul (889460926405673 / 1125899906842624) 100 = 79"
  using rnd_cert[of "22236523160141825 / 281474976710656" "6" 5559130790035456] by (simp add: fmul_def)

lemma pct_one: "fmul 1 100 = 100"
  using rnd_cert[of "100" "6" 7036874417766400] by (simp add: fmul_def)

lemma pct_zero: "fmul 0 100 = 0"
  by (simp add: fmul_def rnd_0)


section \<open>Weighted sums\<close>

lemma fadd_mono: "a \<le> b \<Longrightarrow> c \<le> d \<Longrightarrow> fadd a c \<le> fadd b d"
  unfolding fadd_def by (rule rnd_mono) simp

lemma fmul_mono_left: "a \<le> b \<Longrightarrow> 0 \<le> w \<Longrightarrow> fmul a w \<le> fmul b w"
  unfolding fmul_def by (rule rnd_mono) (rule mult_right_mono)

lemma weighted_sum_mono:
  assumes "\<forall>p \<in> set ws. 0 \<le> snd p" and "\<forall>n. f n \<le> g n" and "a \<le> b"
  shows "foldl (\<lambda>acc (name, weight). fadd acc (fmul (f name) weight)) a ws
       \<le> foldl (\<lambda>acc (name, weight). fadd acc (fmul (g name) weight)) b ws"
  using assms
proof (induction ws arbitrary: a b)
  case Nil
  then show ?case by simp
next
  case (Cons p ws)
  obtain n w where p: "p = (n, w)" by (cases p)
  have w0: "0 \<le> w" using Cons.prems(1) p by simp
  have "fmul (f n) w \<le> fmul (g n) w" using Cons.prems(2) w0 by (simp add: fmul_mono_left)
  then have step: "fadd a (fmul (f n) w) \<le> fadd b (fmul (g n) w)"
    using Cons.prems(3) by (rule fadd_mono[rotated])
  have "\<forall>p \<in> set ws. 0 \<le> snd p" using Cons.prems(1) by simp
  from Cons.IH[OF this Cons.prems(2) step] show ?case by (simp add: p)
qed

lemma py_int_mono: "x \<le> y \<Longrightarrow> py_int x \<le> py_int y"
proof -
  assume xy: "x \<le> y"
  consider "0 \<le> x" | "x < 0" "0 \<le> y" | "x < 0" "y < 0" by linarith
  then show ?thesis
  proof cases
    case 1
    then show ?thesis using xy by (simp add: py_int_def floor_mono)
  next
    case 2
    have a: "\<lceil>x\<rceil> \<le> 0" using 2(1) by (simp add: ceiling_le_iff)
    have b: "0 \<le> \<lfloor>y\<rfloor>" using 2(2) by simp
    have "py_int x = \<lceil>x\<rceil>" "py_int y = \<lfloor>y\<rfloor>" using 2 by (simp_all add: py_int_def)
    then show ?thesis using a b by linarith
  next
    case 3
    then show ?thesis using xy by (simp add: py_int_def ceiling_mono)
  qed
qed

lemma lep_weights_nonneg: "\<forall>p \<in> set lep_weights. 0 \<le> snd p"
  by (simp add: lep_weights_def float_lits)

lemma cascade_weights_nonneg: "\<forall>p \<in> set cascade_weights. 0 \<le> snd p"
  by (simp add: cascade_weights_def float_lits)

section \<open>LEP predictor\<close>

lemma calculate_confidence_unfold:
  "calculate_confidence sigs =
     min (max (fadd (fadd (fadd (fadd (fadd 0
        (fmul (lep_signal_score sigs ''liquidity_velocity'') (1 / 4)))
        (fmul (lep_signal_score sigs ''holder_accumulation'') (1 / 4)))
        (fmul (lep_signal_score sigs ''age_timing'') (3602879701896397 / 18014398509481984)))
        (fmul (lep_signal_score sigs ''volume_momentum'') (5404319552844595 / 36028797018963968)))
        (fmul (lep_signal_score sigs ''dev_activity'') (5404319552844595 / 36028797018963968))) 0) 1"
  by (simp add: calculate_confidence_def lep_weights_def float_lits Let_def)

lemma lep_scenario_signals:
  assumes "liquidity_usd tok = Some v" and "num_val v = 15000" and "holders tok = Some 85"
    and "top_holder_percent tok = Some 45" and "2 \<le> a" and "a \<le> 5"
  shows "score (analyze_liquidity_velocity tok None) = 1 / 2"
    and "velocity (analyze_liquidity_velocity tok None) = 0"
    and "score (analyze_holder_patterns tok) = 1"
    and "score (analyze_age_timing (Some a)) = 1"
    and "in_sweet_spot (analyze_age_timing (Some a))"
    and "score (analyze_volume tok) = 3602879701896397 / 4503599627370496"
    and "score (analyze_dev_activity tok) = 1 / 2"
  using assms
  by (simp_all add: analyze_liquidity_velocity_def analyze_holder_patterns_def analyze_age_timing_def
      analyze_volume_def analyze_dev_activity_def dict_get_def Let_def score_half score_one float_lits)

lemma lep_scenario_confidence:
  assumes "liquidity_usd tok = Some v" and "num_val v = 15000" and "holders tok = Some 85"
    and "top_holder_percent tok = Some 45" and "2 \<le> a" and "a \<le> 5"
  shows "calculate_confidence
           \<lparr>liquidity_velocity = Some (analyze_liquidity_velocity tok None),
            holder_accumulation = Some (analyze_holder_patterns tok),
            age_timing = Some (analyze_age_timing (Some a)),
            volume_momentum = Some (analyze_volume tok),
            dev_activity = Some (analyze_dev_activity tok)\<rparr>
         = 6935543426150563 / 9007199254740992"
  by (simp add: calculate_confidence_unfold lep_signal_score_def lep_scenario_signals[OF assms]
      float_evals)

text \<open>
  C8. With LEP enabled, liquidity 15000 USD (as an int or as a float), 85 holders, a top holder at 45 percent, no
  history and a clock reading between 2 and 5 minutes (3 in particular), the confidence
  is the weighted sum \<open>0.5*0.25 + 1.0*0.25 + 1.0*0.20 + 0.8*0.15 + 0.5*0.15\<close> evaluated
  in floats from left to right. Its value is the float \<open>6935543426150563 / 2^53\<close>,
  printed \<open>0.7699999999999999\<close>: one unit in the last place below the float of the
  literal \<open>0.77\<close>, and within \<open>2^-52\<close> of the number 0.77. It lies in
  \<open>[0.6, 0.8)\<close>, the predicted hours are 6.0, and the recommendation is the
  moderate-confidence buy.
\<close>

theorem lep_scenario:
  assumes "lep_enabled cfg" and "liquidity_usd tok = Some v" and "num_val v = 15000"
    and "holders tok = Some 85" and "top_holder_percent tok = Some 45" and "2 \<le> a" and "a \<le> 5"
  shows "confidence (predict_pump_timing cfg tok None (Some a))
           = fadd (fadd (fadd (fadd (fadd 0 (fmul (1 / 2) (rnd (25 / 100))))
                                    (fmul 1 (rnd (25 / 100))))
                              (fmul 1 (rnd (20 / 100))))
                        (fmul (rnd (8 / 10)) (rnd (15 / 100))))
                  (fmul (1 / 2) (rnd (15 / 100)))
       \<and> confidence (predict_pump_timing cfg tok None (Some a)) = 6935543426150563 / 2 ^ 53
       \<and> rnd (77 / 100) - confidence (predict_pump_timing cfg tok None (Some a)) = 1 / 2 ^ 53
       \<and> \<bar>confidence (predict_pump_timing cfg tok None (Some a)) - 77 / 100\<bar> < 1 / 2 ^ 52
       \<and> rnd (6 / 10) \<le> confidence (predict_pump_timing cfg tok None (Some a))
       \<and> confidence (predict_pump_timing cfg tok None (Some a)) < rnd (8 / 10)
       \<and> predicted_hours (predict_pump_timing cfg tok None (Some a)) = 6
       \<and> recommendation (predict_pump_timing cfg tok None (Some a))
           = ''BUY - Moderate confidence pump in 6.0h''"
proof -
  let ?sigs = "\<lparr>liquidity_velocity = Some (analyze_liquidity_velocity tok None),
            holder_accumulation = Some (analyze_holder_patterns tok),
            age_timing = Some (analyze_age_timing (Some a)),
            volume_momentum = Some (analyze_volume tok),
            dev_activity = Some (analyze_dev_activity tok)\<rparr>"
  note sg = lep_scenario_signals[OF assms(2-7)]
  have c: "calculate_confidence ?sigs = 6935543426150563 / 9007199254740992"
    using assms(2-7) by (rule lep_scenario_confidence)
  have conf: "confidence (predict_pump_timing cfg tok None (Some a)) = 6935543426150563 / 9007199254740992"
    using assms(1) by (simp add: predict_pump_timing_def Let_def c)
  have hrs: "predicted_hours (predict_pump_timing cfg tok None (Some a)) = 6"
    using assms(1) by (simp add: predict_pump_timing_def Let_def c predict_hours_def sg)
  have f6: "fmt_1f 6 = ''6.0''"
    by (simp add: fmt_1f_def rne_def str_nat.simps digit_char_def)
  have "recommendation (predict_pump_timing cfg tok None (Some a))
      = lep_generate_recommendation (6935543426150563 / 9007199254740992) 6"
    using assms(1) by (simp add: predict_pump_timing_def Let_def c predict_hours_def sg)
  then have rec: "recommendation (predict_pump_timing cfg tok None (Some a))
           = ''BUY - Moderate confidence pump in 6.0h''"
    by (simp add: lep_generate_recommendation_def float_lits f6)
  have expr: "fadd (fadd (fadd (fadd (fadd 0 (fmul (1 / 2) (rnd (25 / 100))))
                                    (fmul 1 (rnd (25 / 100))))
                              (fmul 1 (rnd (20 / 100))))
                        (fmul (rnd (8 / 10)) (rnd (15 / 100))))
                  (fmul (1 / 2) (rnd (15 / 100))) = 6935543426150563 / 9007199254740992"
    by (simp add: float_lits float_evals)
  show ?thesis
    unfolding conf hrs rec expr by (simp add: lit_0_77 float_lits)
qed

text \<open>The scenario at a clock reading of exactly 3 minutes.\<close>

theorem lep_scenario_witness:
  "confidence (predict_pump_timing \<lparr>lep_enabled = True, lep_min_confidence = 3 / 5\<rparr> demo_lep_token None (Some 3))
     = 6935543426150563 / 2 ^ 53
   \<and> predicted_hours (predict_pump_timing \<lparr>lep_enabled = True, lep_min_confidence = 3 / 5\<rparr> demo_lep_token None (Some 3)) = 6
   \<and> recommendation (predict_pump_timing \<lparr>lep_enabled = True, lep_min_confidence = 3 / 5\<rparr> demo_lep_token None (Some 3))
     = ''BUY - Moderate confidence pump in 6.0h''"
proof -
  have h: "lep_enabled \<lparr>lep_enabled = True, lep_min_confidence = 3 / 5\<rparr>"
    "liquidity_usd demo_lep_token = Some (PInt 15000)" "num_val (PInt 15000) = 15000"
    "holders demo_lep_token = Some 85"
    "top_holder_percent demo_lep_token = Some 45" "(2::rat) \<le> 3" "(3::rat) \<le> 5"
    by (simp_all add: demo_lep_token_def demo_token_def)
  from lep_scenario[OF h] show ?thesis by blast
qed

section \<open>Ranges of the aggregates\<close>

lemma calculate_confidence_range: "0 \<le> calculate_confidence sigs \<and> calculate_confidence sigs \<le> 1"
  by (simp add: calculate_confidence_def Let_def)


lemma weights_float_sum:
  "foldl fadd 0 (map snd lep_weights) = 1"
  "foldl fadd 0 (map snd cascade_weights) = 1"
  by (simp_all add: lep_weights_def cascade_weights_def float_lits float_evals)

lemma weights_exact_sum:
  "sum_list (map snd lep_weights) = 1"
  "sum_list (map snd cascade_weights) = 1 + 1 / 2 ^ 55"
  by (simp_all add: lep_weights_def cascade_weights_def float_lits)

lemma cascade_sum_ones:
  "foldl (\<lambda>acc (name, weight). fadd acc (fmul ((\<lambda>n. 1) name) weight)) 0 cascade_weights = 1"
  by (simp add: cascade_weights_def float_lits float_evals)

lemma cascade_sum_zeros:
  "foldl (\<lambda>acc (name, weight). fadd acc (fmul ((\<lambda>n. 0) name) weight)) 0 cascade_weights = 0"
  by (simp add: cascade_weights_def float_lits float_evals)

lemma cascade_sum_max:
  "foldl (\<lambda>acc (name, weight). fadd acc (fmul (cascade_score_max name) weight)) 0 cascade_weights
     = 889460926405673 / 1125899906842624"
  by (simp add: cascade_weights_def cascade_score_max_def float_lits float_evals)

lemma virality_score_mono:
  assumes "\<forall>name. f name \<le> g name"
  shows "py_int (fmul (foldl (\<lambda>acc (name, weight). fadd acc (fmul (f name) weight)) 0 cascade_weights) 100)
       \<le> py_int (fmul (foldl (\<lambda>acc (name, weight). fadd acc (fmul (g name) weight)) 0 cascade_weights) 100)"
proof -
  have "foldl (\<lambda>acc (name, weight). fadd acc (fmul (f name) weight)) 0 cascade_weights
      \<le> foldl (\<lambda>acc (name, weight). fadd acc (fmul (g name) weight)) 0 cascade_weights"
    using cascade_weights_nonneg assms by (rule weighted_sum_mono) simp
  then show ?thesis by (intro py_int_mono fmul_mono_left) simp_all
qed

lemma calculate_virality_score_eq:
  "calculate_virality_score sigs =
     py_int (fmul (foldl (\<lambda>acc (name, weight). fadd acc (fmul (cascade_signal_score sigs name) weight))
                    0 cascade_weights) 100)"
  by (simp add: calculate_virality_score_def Let_def)

lemma py_int_numeral: "py_int 0 = 0" "py_int 79 = 79" "py_int 100 = 100"
  by (simp_all add: py_int_def)

text \<open>Sub-scores within \<open>[0, 1]\<close> give a virality score within \<open>[0, 100]\<close>.\<close>

lemma calculate_virality_score_range:
  assumes "\<forall>name. 0 \<le> cascade_signal_score sigs name \<and> cascade_signal_score sigs name \<le> 1"
  shows "0 \<le> calculate_virality_score sigs \<and> calculate_virality_score sigs \<le> 100"
proof -
  have lo: "\<forall>name. (\<lambda>n. 0) name \<le> cascade_signal_score sigs name" using assms by simp
  have hi: "\<forall>name. cascade_signal_score sigs name \<le> (\<lambda>n. 1) name" using assms by simp
  from virality_score_mono[OF lo] have "0 \<le> calculate_virality_score sigs"
    by (simp only: calculate_virality_score_eq cascade_sum_zeros pct_zero py_int_numeral)
  moreover from virality_score_mono[OF hi] have "calculate_virality_score sigs \<le> 100"
    by (simp only: calculate_virality_score_eq cascade_sum_ones pct_one py_int_numeral)
  ultimately show ?thesis by simp
qed

text \<open>Every analyser of the Cascade sentinel stays between 0 and its maximum.\<close>

lemma analyze_network_growth_score:
  "0 \<le> score (analyze_network_growth tok age) \<and> score (analyze_network_growth tok age) \<le> rnd (8 / 10)"
  by (simp add: analyze_network_growth_def Let_def float_lits split: sum.splits)

lemma analyze_holder_diversity_score:
  "0 \<le> score (analyze_holder_diversity tok) \<and> score (analyze_holder_diversity tok) \<le> 1"
  by (simp add: analyze_holder_diversity_def Let_def score_half score_one)

lemma analyze_early_adopters_score:
  "0 \<le> score (analyze_early_adopters tok) \<and> score (analyze_early_adopters tok) \<le> rnd (7 / 10)"
  by (simp add: analyze_early_adopters_def Let_def float_lits)

lemma analyze_liquidity_cascade_score:
  "0 \<le> score (analyze_liquidity_cascade tok age) \<and> score (analyze_liquidity_cascade tok age) \<le> rnd (8 / 10)"
  by (simp add: analyze_liquidity_cascade_def Let_def float_lits split: sum.splits)

text \<open>
  A liquidity figure that is an int beyond the range of a float ends in the handler of
  the analyser, with the neutral score.
\<close>

lemma analyze_liquidity_cascade_overflow:
  "score (analyze_liquidity_cascade (demo_token\<lparr>liquidity_usd := Some demo_huge_amount\<rparr>) (Some 1)) = 1 / 2
   \<and> lc_liquidity (analyze_liquidity_cascade (demo_token\<lparr>liquidity_usd := Some demo_huge_amount\<rparr>) (Some 1))
       = PInt 0"
  by (simp add: analyze_liquidity_cascade_def get_age_minutes_def dict_get_def
      demo_huge_amount_overflows Let_def)

lemma analyze_social_momentum_score: "score (analyze_social_momentum social_data) = 1 / 2"
  by (simp add: analyze_social_momentum_def split: option.splits)

lemma pipeline_scores_bounded:
  "0 \<le> cascade_signal_score
          \<lparr>network_velocity = Some (analyze_network_growth tok age_growth),
           holder_diversity = Some (analyze_holder_diversity tok),
           early_adopter_quality = Some (analyze_early_adopters tok),
           liquidity_cascade = Some (analyze_liquidity_cascade tok age_cascade),
           social_momentum = Some (analyze_social_momentum social_data)\<rparr> name
   \<and> cascade_signal_score
          \<lparr>network_velocity = Some (analyze_network_growth tok age_growth),
           holder_diversity = Some (analyze_holder_diversity tok),
           early_adopter_quality = Some (analyze_early_adopters tok),
           liquidity_cascade = Some (analyze_liquidity_cascade tok age_cascade),
           social_momentum = Some (analyze_social_momentum social_data)\<rparr> name
       \<le> cascade_score_max name"
  using analyze_network_growth_score[of tok age_growth] analyze_holder_diversity_score[of tok]
    analyze_early_adopters_score[of tok] analyze_liquidity_cascade_score[of tok age_cascade]
    analyze_social_momentum_score[of social_data]
  by (simp add: cascade_signal_score_def cascade_score_max_def)

lemma predict_virality_bounds:
  "0 \<le> virality_score (predict_virality cfg tok social_data age_growth age_cascade)
   \<and> virality_score (predict_virality cfg tok social_data age_growth age_cascade) \<le> 79"
proof (cases "cascade_enabled cfg")
  case False
  then show ?thesis by (simp add: predict_virality_def)
next
  case True
  let ?sigs = "\<lparr>network_velocity = Some (analyze_network_growth tok age_growth),
           holder_diversity = Some (analyze_holder_diversity tok),
           early_adopter_quality = Some (analyze_early_adopters tok),
           liquidity_cascade = Some (analyze_liquidity_cascade tok age_cascade),
           social_momentum = Some (analyze_social_momentum social_data)\<rparr>"
  have v: "virality_score (predict_virality cfg tok social_data age_growth age_cascade)
      = calculate_virality_score ?sigs"
    using True by (simp add: predict_virality_def Let_def)
  have lo: "\<forall>name. (\<lambda>n. 0) name \<le> cascade_signal_score ?sigs name"
    using pipeline_scores_bounded[of tok age_growth age_cascade social_data] by simp
  have hi: "\<forall>name. cascade_signal_score ?sigs name \<le> cascade_score_max name"
    using pipeline_scores_bounded[of tok age_growth age_cascade social_data] by simp
  from virality_score_mono[OF lo] have "0 \<le> calculate_virality_score ?sigs"
    by (simp only: calculate_virality_score_eq cascade_sum_zeros pct_zero py_int_numeral)
  moreover from virality_score_mono[OF hi] have "calculate_virality_score ?sigs \<le> 79"
    by (simp only: calculate_virality_score_eq cascade_sum_max pct_max py_int_numeral)
  ultimately show ?thesis by (simp only: v)
qed

text \<open>
  C9. Each weight table sums to 1.0: the float sum, accumulated in table order, is
  exactly 1 for both, and the exact sum of the five floats is 1 for LEP and
  \<open>1 + 2^-55\<close> for Cascade. The LEP confidence lies in \<open>[0, 1]\<close> for every
  signals dictionary, since it is clamped. The Cascade virality score is not clamped; it
  lies in \<open>[0, 100]\<close> for every signals dictionary whose sub-scores lie in \<open>[0, 1]\<close>
  (an absent signal counting as 0), and so for everything \<open>predict_virality\<close> returns,
  as does the confidence that \<open>predict_pump_timing\<close> returns.
\<close>

theorem aggregate_ranges:
  "foldl fadd 0 (map snd lep_weights) = 1
   \<and> foldl fadd 0 (map snd cascade_weights) = 1
   \<and> \<bar>sum_list (map snd lep_weights) - 1\<bar> < 1 / 2 ^ 52
   \<and> \<bar>sum_list (map snd cascade_weights) - 1\<bar> < 1 / 2 ^ 52
   \<and> 0 \<le> calculate_confidence lsigs \<and> calculate_confidence lsigs \<le> 1
   \<and> ((\<forall>name. 0 \<le> cascade_signal_score csigs name \<and> cascade_signal_score csigs name \<le> 1) \<longrightarrow>
        0 \<le> calculate_virality_score csigs \<and> calculate_virality_score csigs \<le> 100)
   \<and> 0 \<le> confidence (predict_pump_timing lcfg tok historical_data age)
   \<and> confidence (predict_pump_timing lcfg tok historical_data age) \<le> 1
   \<and> 0 \<le> virality_score (predict_virality ccfg tok social_data age_growth age_cascade)
   \<and> virality_score (predict_virality ccfg tok social_data age_growth age_cascade) \<le> 100"
proof -
  have e: "\<bar>sum_list (map snd lep_weights) - 1\<bar> < 1 / 2 ^ 52"
    "\<bar>sum_list (map snd cascade_weights) - 1\<bar> < 1 / 2 ^ 52"
    by (simp_all add: weights_exact_sum)
  have c: "0 \<le> confidence (predict_pump_timing lcfg tok historical_data age)
         \<and> confidence (predict_pump_timing lcfg tok historical_data age) \<le> 1"
    using calculate_confidence_range by (simp add: predict_pump_timing_def Let_def)
  have v: "0 \<le> virality_score (predict_virality ccfg tok social_data age_growth age_cascade)
         \<and> virality_score (predict_virality ccfg tok social_data age_growth age_cascade) \<le> 100"
    using predict_virality_bounds[of ccfg tok social_data age_growth age_cascade] by simp
  from weights_float_sum e calculate_confidence_range[of lsigs] calculate_virality_score_range[of csigs] c v
  show ?thesis by blast
qed

lemma demo_cascade_signals_score:
  "cascade_signal_score (demo_cascade_signals s) name
     = (if name = ''network_velocity'' \<or> name = ''holder_diversity'' \<or> name = ''early_adopter_quality''
           \<or> name = ''liquidity_cascade'' \<or> name = ''social_momentum'' then s else 0)"
  by (simp add: cascade_signal_score_def demo_cascade_signals_def)

text \<open>
  With all five sub-scores at 1, the upper end of their range, the virality score is 100.
\<close>

theorem aggregate_ranges_witness:
  "(\<forall>name. 0 \<le> cascade_signal_score (demo_cascade_signals 1) name
           \<and> cascade_signal_score (demo_cascade_signals 1) name \<le> 1)
   \<and> 0 \<le> calculate_virality_score (demo_cascade_signals 1)
   \<and> calculate_virality_score (demo_cascade_signals 1) \<le> 100
   \<and> calculate_virality_score (demo_cascade_signals 1) = 100"
proof -
  have h: "\<forall>name. 0 \<le> cascade_signal_score (demo_cascade_signals 1) name
           \<and> cascade_signal_score (demo_cascade_signals 1) name \<le> 1"
    by (simp add: demo_cascade_signals_score)
  from aggregate_ranges[of _ "demo_cascade_signals 1"] h
  have r: "0 \<le> calculate_virality_score (demo_cascade_signals 1)"
    "calculate_virality_score (demo_cascade_signals 1) \<le> 100"
    by blast+
  have "calculate_virality_score (demo_cascade_signals 1) = 100"
    by (simp add: calculate_virality_score_eq cascade_weights_def demo_cascade_signals_score float_lits
        float_evals pct_one py_int_numeral)
  with h r show ?thesis by blast
qed

section \<open>The ceiling of the virality score\<close>

lemma cascade_recommendation_below_90:
  "v < 90 \<Longrightarrow> cascade_generate_recommendation v \<noteq> ''VIRAL ALERT - Extremely high viral potential''"
  by (simp add: cascade_generate_recommendation_def)

lemma viral_probability_eq:
  "viral_probability (predict_virality cfg tok social_data age_growth age_cascade)
     = (if cascade_enabled cfg
        then rnd (of_int (virality_score (predict_virality cfg tok social_data age_growth age_cascade)) / 100)
        else 0)"
  by (simp add: predict_virality_def Let_def)

lemma cascade_recommendation_eq:
  "cascade_recommendation (predict_virality cfg tok social_data age_growth age_cascade)
     = (if cascade_enabled cfg
        then cascade_generate_recommendation
               (virality_score (predict_virality cfg tok social_data age_growth age_cascade))
        else ''Cascade disabled'')"
  by (simp add: predict_virality_def Let_def)

text \<open>
  C10. For every configuration, token snapshot, social data and clock readings, the
  virality score that \<open>predict_virality\<close> returns is at most 79: each signal is at
  most its maximum (0.8, 1.0, 0.7, 0.8, 0.5), the weighted float sum of the maxima is the
  float 0.79, and its hundredfold is exactly 79. Hence the score is below 90, the
  recommendation is never the viral alert, and the viral probability is at most the
  float 0.79.
\<close>

theorem virality_score_ceiling:
  "virality_score (predict_virality cfg tok social_data age_growth age_cascade) \<le> 79
   \<and> \<not> 90 \<le> virality_score (predict_virality cfg tok social_data age_growth age_cascade)
   \<and> cascade_recommendation (predict_virality cfg tok social_data age_growth age_cascade)
       \<noteq> ''VIRAL ALERT - Extremely high viral potential''
   \<and> viral_probability (predict_virality cfg tok social_data age_growth age_cascade) \<le> rnd (79 / 100)
   \<and> foldl (\<lambda>acc (name, weight). fadd acc (fmul (cascade_score_max name) weight)) 0 cascade_weights
       = rnd (79 / 100)
   \<and> py_int (fmul (rnd (79 / 100)) 100) = 79"
proof -
  let ?r = "predict_virality cfg tok social_data age_growth age_cascade"
  have b: "0 \<le> virality_score ?r" "virality_score ?r \<le> 79"
    using predict_virality_bounds[of cfg tok social_data age_growth age_cascade] by simp_all
  have n: "\<not> 90 \<le> virality_score ?r" using b(2) by simp
  have rec: "cascade_recommendation ?r \<noteq> ''VIRAL ALERT - Extremely high viral potential''"
    using cascade_recommendation_below_90[of "virality_score ?r"] b(2)
    by (simp add: cascade_recommendation_eq)
  have "(of_int (virality_score ?r) :: rat) \<le> of_int 79" using b(2) by (simp only: of_int_le_iff)
  then have "(of_int (virality_score ?r) :: rat) / 100 \<le> 79 / 100" by simp
  then have "rnd (of_int (virality_score ?r) / 100) \<le> rnd (79 / 100)" by (rule rnd_mono)
  moreover have "0 \<le> rnd (79 / 100)" by (simp add: lit_0_79)
  ultimately have p: "viral_probability ?r \<le> rnd (79 / 100)"
    by (simp add: viral_probability_eq)
  have m: "foldl (\<lambda>acc (name, weight). fadd acc (fmul (cascade_score_max name) weight)) 0 cascade_weights
       = rnd (79 / 100)"
    by (simp only: cascade_sum_max lit_0_79)
  have i: "py_int (fmul (rnd (79 / 100)) 100) = 79"
    by (simp only: lit_0_79 pct_max py_int_numeral)
  from b(2) n rec p m i show ?thesis by blast
qed

lemma demo_cascade_scores:
  "score (analyze_network_growth demo_cascade_token (Some (1 / 1000))) = 3602879701896397 / 4503599627370496"
  "score (analyze_holder_diversity demo_cascade_token) = 1"
  "score (analyze_early_adopters demo_cascade_token) = 3152519739159347 / 4503599627370496"
  "score (analyze_liquidity_cascade demo_cascade_token (Some (1 / 1000))) = 3602879701896397 / 4503599627370496"
  "score (analyze_social_momentum None) = 1 / 2"
  by (simp_all add: analyze_network_growth_def analyze_holder_diversity_def analyze_early_adopters_def
      analyze_liquidity_cascade_def analyze_social_momentum_def demo_cascade_token_def demo_token_def
      dict_get_def get_age_minutes_def int_to_float_def truediv_def Let_def rnd_numeral float_lits
      score_half score_one)

text \<open>
  The ceiling is reached: 120 holders, a top holder at 40 percent and 20000 USD of
  liquidity, all within a thousandth of a minute, score 79, a strong-viral
  recommendation and not the viral alert.
\<close>

theorem virality_score_ceiling_witness:
  "virality_score (predict_virality demo_cascade_config demo_cascade_token None (Some (1 / 1000)) (Some (1 / 1000))) = 79
   \<and> virality_score (predict_virality demo_cascade_config demo_cascade_token None (Some (1 / 1000)) (Some (1 / 1000))) \<le> 79
   \<and> cascade_recommendation (predict_virality demo_cascade_config demo_cascade_token None (Some (1 / 1000)) (Some (1 / 1000)))
       = ''STRONG VIRAL - High viral potential''
   \<and> cascade_recommendation (predict_virality demo_cascade_config demo_cascade_token None (Some (1 / 1000)) (Some (1 / 1000)))
       \<noteq> ''VIRAL ALERT - Extremely high viral potential''
   \<and> viral_probability (predict_virality demo_cascade_config demo_cascade_token None (Some (1 / 1000)) (Some (1 / 1000)))
       \<le> rnd (79 / 100)"
proof -
  let ?r = "predict_virality demo_cascade_config demo_cascade_token None (Some (1 / 1000)) (Some (1 / 1000))"
  have v: "virality_score ?r = 79"
    by (simp add: predict_virality_def demo_cascade_config_def Let_def calculate_virality_score_eq
        cascade_weights_def cascade_signal_score_def demo_cascade_scores float_lits float_evals
        pct_max py_int_numeral)
  have en: "cascade_enabled demo_cascade_config" by (simp add: demo_cascade_config_def)
  have rec: "cascade_recommendation ?r = ''STRONG VIRAL - High viral potential''"
    by (simp add: cascade_recommendation_eq en v cascade_generate_recommendation_def)
  from virality_score_ceiling[of demo_cascade_config demo_cascade_token None "Some (1 / 1000)" "Some (1 / 1000)"]
  have c: "virality_score ?r \<le> 79"
    "cascade_recommendation ?r \<noteq> ''VIRAL ALERT - Extremely high viral potential''"
    "viral_probability ?r \<le> rnd (79 / 100)"
    by blast+
  from v rec c show ?thesis by blast
qed

end
